theory Spec2Isabelle
  imports Complex_Main "HOL-Library.Word"
begin

unbundle bit_operations_syntax

section \<open>The point-cloud display of rviz (point\_cloud\_base.cpp)\<close>

text \<open>
  A shallow embedding of \<^verbatim>\<open>rviz::PointCloudBase\<close>. The object's members are the fields of
  the record \<open>PointCloudBase\<close>; every member function takes the object and returns the
  updated one. A failed \<^verbatim>\<open>ROS_ASSERT\<close>, a \<^verbatim>\<open>std::vector\<close> read past the end and a call
  through a NULL property pointer have no defined successor state in C++; the functions
  that contain one return \<open>error + PointCloudBase\<close>.

  Numbers: a C++ \<^verbatim>\<open>float\<close> that the code only compares and computes with is a \<open>real\<close>
  (no rounding, no NaN, no infinities). \<^verbatim>\<open>uint32_t\<close> sizes are \<open>nat\<close> (a ROS array
  length fits 32 bits); the \<^verbatim>\<open>int\<close> enumerators are \<open>int\<close>.

  Threads: the mutex and the render lock are not modelled. Every member function runs from
  its first statement to its last on the state the previous one left.
\<close>

subsection \<open>Messages\<close>

text \<open>
  A channel value is the one kind of float whose storage the code also reads as an integer
  (\<^verbatim>\<open>*reinterpret_cast<int*>(&val)\<close> in \<^verbatim>\<open>transformRGB\<close>). It is modelled by the number
  it denotes, \<open>fval\<close>, together with its 32-bit pattern, \<open>raw\<close>. Arithmetic and comparisons
  see \<open>fval\<close>, the reinterpreting read sees \<open>raw\<close>. No relation between the two is assumed,
  so whatever is proved holds for the IEEE-754 pairing in particular.
\<close>

record float32 =
  fval :: real
  raw :: "32 word"

text \<open>\<^verbatim>\<open>robot_msgs::Point32\<close>: the triple (x, y, z).\<close>

type_synonym Point32 = "real \<times> real \<times> real"

text \<open>\<^verbatim>\<open>robot_msgs::ChannelFloat32\<close>.\<close>

record ChannelFloat32 =
  name :: string
  vals :: "float32 list"

text \<open>\<^verbatim>\<open>robot_msgs::PointCloud\<close>; \<open>frame_id\<close> is \<^verbatim>\<open>header.frame_id\<close>.\<close>

record PointCloud =
  frame_id :: string
  pts :: "Point32 list"
  chan :: "ChannelFloat32 list"

subsection \<open>Colours, output points and the renderer\<close>

text \<open>\<^verbatim>\<open>rviz::Color\<close> (members \<^verbatim>\<open>r_\<close>, \<^verbatim>\<open>g_\<close>, \<^verbatim>\<open>b_\<close>).\<close>

record Color =
  col_r :: real
  col_g :: real
  col_b :: real

text \<open>\<^verbatim>\<open>ogre_tools::PointCloud::Point\<close> (members \<^verbatim>\<open>x_ y_ z_ r_ g_ b_\<close>).\<close>

record Point =
  pt_x :: real
  pt_y :: real
  pt_z :: real
  pt_r :: real
  pt_g :: real
  pt_b :: real

text \<open>
  Modelled from the spec: the renderer \<^verbatim>\<open>ogre_tools::PointCloud\<close> behind \<^verbatim>\<open>cloud_\<close> is not
  part of the sources. Section 6 of the specification gives its interface:
  \<^verbatim>\<open>addPoints(points[], count)\<close> appends, \<^verbatim>\<open>popPoints(count)\<close> drops a FIFO prefix,
  \<^verbatim>\<open>clear()\<close> drops everything, and \<^verbatim>\<open>setAlpha\<close>, \<^verbatim>\<open>setBillboardDimensions\<close>,
  \<^verbatim>\<open>setUsePoints\<close> store their arguments.
\<close>

record OgrePointCloud =
  points :: "Point list"
  cloud_alpha :: real
  dimensions :: "real \<times> real"
  use_points :: bool

definition addPoints :: "Point list \<Rightarrow> OgrePointCloud \<Rightarrow> OgrePointCloud" where
  "addPoints ps c = c\<lparr>points := points c @ ps\<rparr>"

definition popPoints :: "nat \<Rightarrow> OgrePointCloud \<Rightarrow> OgrePointCloud" where
  "popPoints n c = c\<lparr>points := drop n (points c)\<rparr>"

definition clear :: "OgrePointCloud \<Rightarrow> OgrePointCloud" where
  "clear c = c\<lparr>points := []\<rparr>"

subsection \<open>The display object\<close>

text \<open>\<^verbatim>\<open>PointCloudBase::CloudInfo\<close>. The shared message is held by value: the entry keeps
  the message as \<^verbatim>\<open>transformCloud\<close> left it.\<close>

record CloudInfo =
  message :: PointCloud
  time :: real
  num_points :: nat

text \<open>
  Modelled from the spec: the enumerations of point\_cloud\_base.h, which is not part of the
  sources. Section 6: \<open>Billboards = 0\<close>, \<open>Points = 1\<close>; \<open>Intensity = 0\<close>, \<open>ColorRGBSpace\<close>,
  \<open>NormalSphere\<close>, \<open>Curvature\<close>; each list is closed by its count.
\<close>

abbreviation (input) Billboards :: int where "Billboards \<equiv> 0"
abbreviation (input) Points :: int where "Points \<equiv> 1"
abbreviation (input) StyleCount :: int where "StyleCount \<equiv> 2"

abbreviation (input) Intensity :: int where "Intensity \<equiv> 0"
abbreviation (input) ColorRGBSpace :: int where "ColorRGBSpace \<equiv> 1"
abbreviation (input) NormalSphere :: int where "NormalSphere \<equiv> 2"
abbreviation (input) Curvature :: int where "Curvature \<equiv> 3"
abbreviation (input) ChannelRenderCount :: int where "ChannelRenderCount \<equiv> 4"

text \<open>The ten property pointers of the object (\<^verbatim>\<open>style_property_\<close>, ...).\<close>

datatype Property =
  style_property | channel_property | alpha_property | min_color_property
  | max_color_property | billboard_size_property | auto_compute_intensity_bounds_property
  | min_intensity_property | max_intensity_property | decay_time_property

text \<open>What \<^verbatim>\<open>ROS_ERROR\<close>, \<^verbatim>\<open>ROS_ERROR_COND\<close> and \<^verbatim>\<open>ROS_WARN\<close> print.\<close>

datatype LogMsg =
  TransformError string string
  | ChannelSizeError nat nat
  | NormalsWarning

datatype error = AssertionFailed | OutOfRange | NullProperty

text \<open>
  The members. \<open>created p\<close> says that the pointer \<open>p\<close> is not NULL. The effects on the
  collaborators are recorded in the object: \<open>changed\<close> lists the properties whose
  \<^verbatim>\<open>changed()\<close> was called, oldest first; \<open>channel_options\<close> are the options of the Channel
  property (\<^verbatim>\<open>clear\<close>, \<^verbatim>\<open>addOption\<close>); \<open>renders\<close> counts the calls of \<^verbatim>\<open>causeRender()\<close>;
  \<open>logged\<close> collects the log lines.
\<close>

record PointCloudBase =
  new_cloud :: bool
  min_color :: Color
  max_color :: Color
  min_intensity :: real
  max_intensity :: real
  auto_compute_intensity_bounds :: bool
  intensity_bounds_changed :: bool
  style :: int
  channel_color_idx :: int
  billboard_size :: real
  point_decay_time :: real
  alpha :: real
  clouds :: "CloudInfo list"
  cloud :: OgrePointCloud
  fixed_frame :: string
  created :: "Property \<Rightarrow> bool"
  changed :: "Property list"
  channel_options :: "(string \<times> int) list"
  renders :: nat
  logged :: "LogMsg list"

definition causeRender :: "PointCloudBase \<Rightarrow> PointCloudBase" where
  "causeRender s = s\<lparr>renders := Suc (renders s)\<rparr>"

text \<open>\<^verbatim>\<open>if (p) p->changed();\<close>\<close>

definition notify :: "Property \<Rightarrow> PointCloudBase \<Rightarrow> PointCloudBase" where
  "notify p s = (if created s p then s\<lparr>changed := changed s @ [p]\<rparr> else s)"

subsection \<open>Setters\<close>

definition setAlpha :: "real \<Rightarrow> PointCloudBase \<Rightarrow> PointCloudBase" where
  "setAlpha a s =
     notify alpha_property (s\<lparr>alpha := a, cloud := (cloud s)\<lparr>cloud_alpha := a\<rparr>\<rparr>)"

definition setMaxColor :: "Color \<Rightarrow> PointCloudBase \<Rightarrow> PointCloudBase" where
  "setMaxColor color s = causeRender (notify max_color_property (s\<lparr>max_color := color\<rparr>))"

definition setMinColor :: "Color \<Rightarrow> PointCloudBase \<Rightarrow> PointCloudBase" where
  "setMinColor color s = causeRender (notify min_color_property (s\<lparr>min_color := color\<rparr>))"

definition setMinIntensity :: "real \<Rightarrow> PointCloudBase \<Rightarrow> PointCloudBase" where
  "setMinIntensity v s =
     causeRender (notify min_intensity_property
       (s\<lparr>min_intensity := (if v > max_intensity s then max_intensity s else v)\<rparr>))"

definition setMaxIntensity :: "real \<Rightarrow> PointCloudBase \<Rightarrow> PointCloudBase" where
  "setMaxIntensity v s =
     causeRender (notify max_intensity_property
       (s\<lparr>max_intensity := (if v < min_intensity s then min_intensity s else v)\<rparr>))"

definition setDecayTime :: "real \<Rightarrow> PointCloudBase \<Rightarrow> PointCloudBase" where
  "setDecayTime t s = causeRender (notify decay_time_property (s\<lparr>point_decay_time := t\<rparr>))"

definition setAutoComputeIntensityBounds :: "bool \<Rightarrow> PointCloudBase \<Rightarrow> PointCloudBase" where
  "setAutoComputeIntensityBounds compute s =
     causeRender (notify auto_compute_intensity_bounds_property
       (s\<lparr>auto_compute_intensity_bounds := compute\<rparr>))"

definition setStyle :: "int \<Rightarrow> PointCloudBase \<Rightarrow> error + PointCloudBase" where
  "setStyle st s =
     (if \<not> st < StyleCount then Inl AssertionFailed
      else Inr (causeRender (notify style_property
             (s\<lparr>style := st, cloud := (cloud s)\<lparr>use_points := (st = Points)\<rparr>\<rparr>))))"

definition setChannelColorIndex :: "int \<Rightarrow> PointCloudBase \<Rightarrow> error + PointCloudBase" where
  "setChannelColorIndex idx s =
     (if \<not> idx < ChannelRenderCount then Inl AssertionFailed
      else Inr (s\<lparr>channel_color_idx := idx\<rparr>))"

definition setBillboardSize :: "real \<Rightarrow> PointCloudBase \<Rightarrow> PointCloudBase" where
  "setBillboardSize sz s =
     causeRender (notify billboard_size_property
       (s\<lparr>billboard_size := sz, cloud := (cloud s)\<lparr>dimensions := (sz, sz)\<rparr>\<rparr>))"

definition onEnable :: "PointCloudBase \<Rightarrow> PointCloudBase" where
  "onEnable s = s"

definition onDisable :: "PointCloudBase \<Rightarrow> PointCloudBase" where
  "onDisable s = s\<lparr>clouds := [], cloud := clear (cloud s)\<rparr>"

definition reset :: "PointCloudBase \<Rightarrow> PointCloudBase" where
  "reset s = s\<lparr>clouds := [], cloud := clear (cloud s)\<rparr>"

definition fixedFrameChanged :: "PointCloudBase \<Rightarrow> PointCloudBase" where
  "fixedFrameChanged s = reset s"

text \<open>\<^verbatim>\<open>createProperties\<close> makes the ten properties; the Style property gets its two
  options, which the model does not track.\<close>

definition createProperties :: "PointCloudBase \<Rightarrow> PointCloudBase" where
  "createProperties s = s\<lparr>created := (\<lambda>p. True)\<rparr>"

subsection \<open>The per-frame tick\<close>

text \<open>The first loop of \<^verbatim>\<open>update\<close>: \<^verbatim>\<open>info->time_ += dt\<close> for every entry.\<close>

definition age_clouds :: "real \<Rightarrow> CloudInfo list \<Rightarrow> CloudInfo list" where
  "age_clouds dt cs = map (\<lambda>info. info\<lparr>time := time info + dt\<rparr>) cs"

text \<open>
  The \<^verbatim>\<open>while\<close> loop of \<^verbatim>\<open>update\<close>, on the deque \<^verbatim>\<open>clouds_\<close>, the renderer and the flag
  \<^verbatim>\<open>removed\<close>: while the deque is not empty and its front is older than the decay time,
  \<^verbatim>\<open>popPoints\<close> the front's point count and \<^verbatim>\<open>pop_front\<close>.
\<close>

fun pop_expired ::
  "real \<Rightarrow> CloudInfo list \<Rightarrow> OgrePointCloud \<Rightarrow> bool \<Rightarrow> CloudInfo list \<times> OgrePointCloud \<times> bool"
where
  "pop_expired d [] c removed = ([], c, removed)"
| "pop_expired d (info # rest) c removed =
     (if time info > d then pop_expired d rest (popPoints (num_points info) c) True
      else (info # rest, c, removed))"

text \<open>
  The loop of \<^verbatim>\<open>update\<close> over the channels of the front cloud: the running
  \<^verbatim>\<open>channel_color_idx\<close> and the options added to the Channel property so far.
\<close>

fun add_channel_options ::
  "ChannelFloat32 list \<Rightarrow> int \<Rightarrow> (string \<times> int) list \<Rightarrow> int \<times> (string \<times> int) list"
where
  "add_channel_options [] idx opts = (idx, opts)"
| "add_channel_options (c # cs) idx opts =
     (if name c = ''intensity'' \<or> name c = ''intensities'' then
        add_channel_options cs (if idx = -1 then Intensity else idx)
          (opts @ [(''Intensity'', Intensity)])
      else if name c = ''rgb'' \<or> name c = ''r'' then
        add_channel_options cs (if idx = -1 then ColorRGBSpace else idx)
          (opts @ [(''Color (RGB)'', ColorRGBSpace)])
      else if name c = ''nx'' then
        add_channel_options cs (if idx = -1 then NormalSphere else idx)
          (opts @ [(''Normal Sphere'', NormalSphere)])
      else if name c = ''curvature'' \<or> name c = ''curvatures'' then
        add_channel_options cs (if idx = -1 then Curvature else idx)
          (opts @ [(''Curvature'', Curvature)])
      else add_channel_options cs idx opts)"

text \<open>The block \<^verbatim>\<open>if (new_cloud_ && !clouds_.empty())\<close>. \<^verbatim>\<open>channel_property_->clear()\<close>
  is called before the pointer is tested.\<close>

definition refresh_channels :: "PointCloudBase \<Rightarrow> error + PointCloudBase" where
  "refresh_channels s =
     (case clouds s of
        [] \<Rightarrow> Inr s
      | front # _ \<Rightarrow>
          if \<not> created s channel_property then Inl NullProperty
          else
            (let (idx, opts) = add_channel_options (chan (message front)) (channel_color_idx s) []
             in setChannelColorIndex idx (notify channel_property (s\<lparr>channel_options := opts\<rparr>))))"

text \<open>The first block of \<^verbatim>\<open>update\<close>: \<^verbatim>\<open>if (intensity_bounds_changed_)\<close>.\<close>

definition rebroadcast_bounds :: "PointCloudBase \<Rightarrow> PointCloudBase" where
  "rebroadcast_bounds s =
     (if intensity_bounds_changed s then
        (let s1 = setMinIntensity (min_intensity s) s;
             s2 = setMaxIntensity (max_intensity s1) s1
         in s2\<lparr>intensity_bounds_changed := False\<rparr>)
      else s)"

text \<open>The block \<^verbatim>\<open>if (point_decay_time_ > 0.0f)\<close>, with its \<^verbatim>\<open>causeRender()\<close>.\<close>

definition expire :: "PointCloudBase \<Rightarrow> PointCloudBase" where
  "expire s =
     (if point_decay_time s > 0 then
        (let (cs, c, removed) = pop_expired (point_decay_time s) (clouds s) (cloud s) False;
             s1 = s\<lparr>clouds := cs, cloud := c\<rparr>
         in if removed then causeRender s1 else s1)
      else s)"

definition update :: "real \<Rightarrow> PointCloudBase \<Rightarrow> error + PointCloudBase" where
  "update dt s =
     (let s1 = rebroadcast_bounds s;
          s2 = s1\<lparr>clouds := age_clouds dt (clouds s1)\<rparr>;
          s3 = expire s2
      in case (if new_cloud s3 then refresh_channels s3 else Inr s3) of
           Inl e \<Rightarrow> Inl e
         | Inr s4 \<Rightarrow> Inr (s4\<lparr>new_cloud := False\<rparr>))"

subsection \<open>Colorizers\<close>

definition transformIntensity ::
  "float32 \<Rightarrow> Point \<Rightarrow> Color \<Rightarrow> real \<Rightarrow> real \<Rightarrow> real \<Rightarrow> Point" where
  "transformIntensity v point minc min_i max_i diff_intensity =
     (let normalized_intensity =
            (if diff_intensity > 0 then (fval v - min_i) / diff_intensity else 1);
          normalized_intensity = min 1 (max 0 normalized_intensity)
      in point\<lparr>pt_r := pt_r point * normalized_intensity + col_r minc * (1 - normalized_intensity),
               pt_g := pt_g point * normalized_intensity + col_g minc * (1 - normalized_intensity),
               pt_b := pt_b point * normalized_intensity + col_b minc * (1 - normalized_intensity)\<rparr>)"

text \<open>\<^verbatim>\<open>int rgb = *reinterpret_cast<int*>(&val)\<close>, then \<^verbatim>\<open>>>\<close> on a signed \<^verbatim>\<open>int\<close>.\<close>

definition transformRGB ::
  "float32 \<Rightarrow> Point \<Rightarrow> Color \<Rightarrow> real \<Rightarrow> real \<Rightarrow> real \<Rightarrow> Point" where
  "transformRGB v point minc min_i max_i diff_intensity =
     (let rgb = raw v
      in point\<lparr>pt_r := real_of_int (sint (signed_drop_bit 16 rgb AND 0xff)) / 255,
               pt_g := real_of_int (sint (signed_drop_bit 8 rgb AND 0xff)) / 255,
               pt_b := real_of_int (sint (rgb AND 0xff)) / 255\<rparr>)"

definition transformR ::
  "float32 \<Rightarrow> Point \<Rightarrow> Color \<Rightarrow> real \<Rightarrow> real \<Rightarrow> real \<Rightarrow> Point" where
  "transformR v point minc min_i max_i diff_intensity = point\<lparr>pt_r := fval v\<rparr>"

definition transformG ::
  "float32 \<Rightarrow> Point \<Rightarrow> Color \<Rightarrow> real \<Rightarrow> real \<Rightarrow> real \<Rightarrow> Point" where
  "transformG v point minc min_i max_i diff_intensity = point\<lparr>pt_g := fval v\<rparr>"

definition transformB ::
  "float32 \<Rightarrow> Point \<Rightarrow> Color \<Rightarrow> real \<Rightarrow> real \<Rightarrow> real \<Rightarrow> Point" where
  "transformB v point minc min_i max_i diff_intensity = point\<lparr>pt_b := fval v\<rparr>"

datatype ChannelType = CT_INTENSITY | CT_RGB | CT_R | CT_G | CT_B

text \<open>The table \<^verbatim>\<open>funcs[CT_COUNT]\<close>.\<close>

fun funcs :: "ChannelType \<Rightarrow> float32 \<Rightarrow> Point \<Rightarrow> Color \<Rightarrow> real \<Rightarrow> real \<Rightarrow> real \<Rightarrow> Point" where
  "funcs CT_INTENSITY = transformIntensity"
| "funcs CT_RGB = transformRGB"
| "funcs CT_R = transformR"
| "funcs CT_G = transformG"
| "funcs CT_B = transformB"

subsection \<open>The ingest pipeline\<close>

text \<open>
  What \<^verbatim>\<open>transformCloud\<close> takes from outside the sources: the TF listener \<^verbatim>\<open>tf_\<close>, whose
  \<^verbatim>\<open>transformPointCloud(fixed_frame_, *cloud, *cloud)\<close> either rewrites the cloud or throws
  \<^verbatim>\<open>tf::TransformException\<close> (\<open>None\<close>), and the axis conversion \<^verbatim>\<open>robotToOgre\<close> of common.h.
\<close>

record Collaborators =
  transformPointCloud :: "string \<Rightarrow> PointCloud \<Rightarrow> PointCloud option"
  robotToOgre :: "Point32 \<Rightarrow> Point32"

text \<open>\<^verbatim>\<open>v[i]\<close> on a \<^verbatim>\<open>std::vector\<close>: defined for \<open>i < size\<close> only.\<close>

definition vec_at :: "'a list \<Rightarrow> nat \<Rightarrow> 'a option" where
  "vec_at xs i = (if i < length xs then Some (xs ! i) else None)"

text \<open>
  Modelled from the spec: \<^verbatim>\<open>getROSCloudChannelIndex\<close> is declared outside the sources.
  Section 4.5, step 4, has it resolve a channel by name and report a missing one; the
  code tests the result against \<open>-1\<close>. It is the index of the first channel of that name.
\<close>

fun channel_index_from :: "nat \<Rightarrow> ChannelFloat32 list \<Rightarrow> string \<Rightarrow> int" where
  "channel_index_from d [] channel_name = -1"
| "channel_index_from d (c # cs) channel_name =
     (if name c = channel_name then int d else channel_index_from (Suc d) cs channel_name)"

definition getROSCloudChannelIndex :: "PointCloud \<Rightarrow> string \<Rightarrow> int" where
  "getROSCloudChannelIndex cl channel_name = channel_index_from 0 (chan cl) channel_name"

text \<open>The constant \<^verbatim>\<open>4096.0f\<close> as a channel value.\<close>

definition float_4096 :: float32 where
  "float_4096 = \<lparr>fval = 4096, raw = 0x45800000\<rparr>"

text \<open>
  The loop over the values of an intensity or curvature channel of the right size:
  \<^verbatim>\<open>intensity = std::min(intensity, 4096.0f)\<close> is written back into the channel, then the
  running minimum and maximum are updated. The channel has \<^verbatim>\<open>point_count\<close> values here, so
  the loop over \<open>i < point_count\<close> visits exactly the list.
\<close>

fun compute_bounds :: "float32 list \<Rightarrow> real \<Rightarrow> real \<Rightarrow> float32 list \<times> real \<times> real" where
  "compute_bounds [] min_i max_i = ([], min_i, max_i)"
| "compute_bounds (v # vs) min_i max_i =
     (let intensity = (if 4096 < fval v then float_4096 else v);
          (vs', min_i', max_i') =
             compute_bounds vs (min min_i (fval intensity)) (max max_i (fval intensity))
      in (intensity # vs', min_i', max_i'))"

text \<open>
  One iteration of the first loop over the channels: the channel as the loop leaves it, its
  entry of \<^verbatim>\<open>valid_channels\<close>, the object and \<^verbatim>\<open>use_normals_as_coordinates\<close>.
\<close>

definition check_channel ::
  "nat \<Rightarrow> ChannelFloat32 \<Rightarrow> PointCloudBase \<Rightarrow> bool \<Rightarrow> ChannelFloat32 \<times> bool \<times> PointCloudBase \<times> bool"
where
  "check_channel point_count c s use_normals =
     (let val_count = length (vals c);
          channel_size_correct = (val_count = point_count);
          s1 = (if channel_size_correct then s
                else s\<lparr>logged := logged s @ [ChannelSizeError val_count point_count]\<rparr>)
      in if auto_compute_intensity_bounds s1 \<and> channel_size_correct
            \<and> (name c = ''intensity'' \<or> name c = ''intensities'')
            \<and> channel_color_idx s1 = Intensity then
           (let (vs, min_i, max_i) = compute_bounds (vals c) 999999 (- 999999)
            in (c\<lparr>vals := vs\<rparr>, channel_size_correct,
                s1\<lparr>min_intensity := min_i, max_intensity := max_i,
                   intensity_bounds_changed := True\<rparr>, use_normals))
         else if auto_compute_intensity_bounds s1 \<and> channel_size_correct
            \<and> (name c = ''curvature'' \<or> name c = ''curvatures'')
            \<and> channel_color_idx s1 = Curvature then
           (let (vs, min_i, max_i) = compute_bounds (vals c) 999999 (- 999999)
            in (c\<lparr>vals := vs\<rparr>, channel_size_correct,
                s1\<lparr>min_intensity := min_i, max_intensity := max_i,
                   intensity_bounds_changed := True\<rparr>, use_normals))
         else if name c = ''nx'' \<and> channel_color_idx s1 = NormalSphere then
           (c, channel_size_correct, s1, True)
         else (c, channel_size_correct, s1, use_normals))"

fun check_channels ::
  "nat \<Rightarrow> ChannelFloat32 list \<Rightarrow> PointCloudBase \<Rightarrow> bool
     \<Rightarrow> ChannelFloat32 list \<times> bool list \<times> PointCloudBase \<times> bool"
where
  "check_channels point_count [] s use_normals = ([], [], s, use_normals)"
| "check_channels point_count (c # cs) s use_normals =
     (let (c', ok, s1, use_normals1) = check_channel point_count c s use_normals;
          (cs', valid_channels, s2, use_normals2) = check_channels point_count cs s1 use_normals1
      in (c' # cs', ok # valid_channels, s2, use_normals2))"

text \<open>
  The body of the loop that fills \<^verbatim>\<open>points[i]\<close>: the coordinates come from the channels
  \<open>nx\<close>, \<open>ny\<close>, \<open>nz\<close> or from \<^verbatim>\<open>cloud->pts[i]\<close>, go through \<^verbatim>\<open>robotToOgre\<close>, and the colour
  starts as \<^verbatim>\<open>max_color_\<close>.
\<close>

definition channel_value :: "PointCloud \<Rightarrow> int \<Rightarrow> nat \<Rightarrow> error + real" where
  "channel_value cl idx i =
     (case vec_at (chan cl) (nat idx) of
        None \<Rightarrow> Inl OutOfRange
      | Some c \<Rightarrow> (case vec_at (vals c) i of None \<Rightarrow> Inl OutOfRange | Some v \<Rightarrow> Inr (fval v)))"

definition coordinates ::
  "PointCloud \<Rightarrow> bool \<Rightarrow> int \<Rightarrow> int \<Rightarrow> int \<Rightarrow> nat \<Rightarrow> error + Point32" where
  "coordinates cl use_normals nx_idx ny_idx nz_idx i =
     (if use_normals \<and> nx_idx \<noteq> -1 \<and> ny_idx \<noteq> -1 \<and> nz_idx \<noteq> -1 then
        (case channel_value cl nx_idx i of
           Inl e \<Rightarrow> Inl e
         | Inr x \<Rightarrow>
             (case channel_value cl ny_idx i of
                Inl e \<Rightarrow> Inl e
              | Inr y \<Rightarrow>
                  (case channel_value cl nz_idx i of
                     Inl e \<Rightarrow> Inl e
                   | Inr z \<Rightarrow> Inr (x, y, z))))
      else (case vec_at (pts cl) i of None \<Rightarrow> Inl OutOfRange | Some p \<Rightarrow> Inr p))"

definition make_point ::
  "Collaborators \<Rightarrow> Color \<Rightarrow> PointCloud \<Rightarrow> bool \<Rightarrow> int \<Rightarrow> int \<Rightarrow> int \<Rightarrow> nat \<Rightarrow> error + Point"
where
  "make_point env maxc cl use_normals nx_idx ny_idx nz_idx i =
     (case coordinates cl use_normals nx_idx ny_idx nz_idx i of
        Inl e \<Rightarrow> Inl e
      | Inr position \<Rightarrow>
          (case robotToOgre env position of
             (x, y, z) \<Rightarrow>
               Inr \<lparr>pt_x = x, pt_y = y, pt_z = z,
                    pt_r = col_r maxc, pt_g = col_g maxc, pt_b = col_b maxc\<rparr>))"

text \<open>The loop \<^verbatim>\<open>for (i = 0; i < point_count; i++)\<close> over the indices still to visit.\<close>

fun make_points ::
  "Collaborators \<Rightarrow> Color \<Rightarrow> PointCloud \<Rightarrow> bool \<Rightarrow> int \<Rightarrow> int \<Rightarrow> int \<Rightarrow> nat list
     \<Rightarrow> error + Point list"
where
  "make_points env maxc cl use_normals nx_idx ny_idx nz_idx [] = Inr []"
| "make_points env maxc cl use_normals nx_idx ny_idx nz_idx (i # rest) =
     (case make_point env maxc cl use_normals nx_idx ny_idx nz_idx i of
        Inl e \<Rightarrow> Inl e
      | Inr p \<Rightarrow>
          (case make_points env maxc cl use_normals nx_idx ny_idx nz_idx rest of
             Inl e \<Rightarrow> Inl e
           | Inr ps \<Rightarrow> Inr (p # ps)))"

text \<open>The chain that sets \<^verbatim>\<open>type\<close> in the second loop; \<open>None\<close> is its \<^verbatim>\<open>continue\<close>.\<close>

definition channel_type :: "string \<Rightarrow> ChannelType option" where
  "channel_type nm =
     (if nm = ''intensity'' \<or> nm = ''intensities'' \<or> nm = ''curvatures'' \<or> nm = ''curvature''
      then Some CT_INTENSITY
      else if nm = ''rgb'' then Some CT_RGB
      else if nm = ''r'' then Some CT_R
      else if nm = ''g'' then Some CT_G
      else if nm = ''b'' then Some CT_B
      else None)"

text \<open>The condition under the comment \<^verbatim>\<open>// Color all points\<close>.\<close>

definition selected :: "int \<Rightarrow> string \<Rightarrow> bool" where
  "selected idx nm \<longleftrightarrow>
     (idx = Intensity \<and> (nm = ''intensity'' \<or> nm = ''intensities''))
     \<or> (idx = Curvature \<and> (nm = ''curvature'' \<or> nm = ''curvatures''))
     \<or> (idx = ColorRGBSpace \<and> (nm = ''rgb'' \<or> nm = ''r'' \<or> nm = ''g'' \<or> nm = ''b''))"

text \<open>
  The second loop over the channels, each with its entry of \<^verbatim>\<open>valid_channels\<close>. A valid
  channel has one value per point, so the inner loop over \<open>i < point_count\<close> pairs the
  values with the points.
\<close>

fun color_points ::
  "PointCloudBase \<Rightarrow> real \<Rightarrow> (ChannelFloat32 \<times> bool) list \<Rightarrow> Point list \<Rightarrow> Point list" where
  "color_points s diff_intensity [] ps = ps"
| "color_points s diff_intensity ((c, valid) # rest) ps =
     (if \<not> valid then color_points s diff_intensity rest ps
      else
        (case channel_type (name c) of
           None \<Rightarrow> color_points s diff_intensity rest ps
         | Some ty \<Rightarrow>
             if selected (channel_color_idx s) (name c) then
               color_points s diff_intensity rest
                 (map2 (\<lambda>v p. funcs ty v p (min_color s) (min_intensity s) (max_intensity s)
                                 diff_intensity)
                    (vals c) ps)
             else color_points s diff_intensity rest ps))"

text \<open>The \<^verbatim>\<open>try\<close> block: the reprojected cloud, or the cloud as it came and an error line.\<close>

definition reproject ::
  "Collaborators \<Rightarrow> PointCloud \<Rightarrow> PointCloudBase \<Rightarrow> PointCloud \<times> PointCloudBase" where
  "reproject env cl s =
     (let frame = (if frame_id cl = [] then fixed_frame s else frame_id cl)
      in case transformPointCloud env (fixed_frame s) cl of
           Some moved \<Rightarrow> (moved, s)
         | None \<Rightarrow> (cl, s\<lparr>logged := logged s @ [TransformError frame (fixed_frame s)]\<rparr>))"

text \<open>The block under \<^verbatim>\<open>// Look for point normals\<close>: the three indices and the
  flag \<^verbatim>\<open>use_normals_as_coordinates\<close> as it stands afterwards.\<close>

definition look_for_normals ::
  "PointCloud \<Rightarrow> bool \<Rightarrow> PointCloudBase \<Rightarrow> int \<times> int \<times> int \<times> bool \<times> PointCloudBase" where
  "look_for_normals cl use_normals s =
     (let nx_idx = getROSCloudChannelIndex cl ''nx'';
          ny_idx = getROSCloudChannelIndex cl ''ny'';
          nz_idx = getROSCloudChannelIndex cl ''nz''
      in if use_normals \<and> (ny_idx = -1 \<or> nz_idx = -1) then
           (nx_idx, ny_idx, nz_idx, False, s\<lparr>logged := logged s @ [NormalsWarning]\<rparr>)
         else (nx_idx, ny_idx, nz_idx, use_normals, s))"

text \<open>The last block, under the render lock, and \<^verbatim>\<open>causeRender()\<close>.\<close>

definition show_points :: "Point list \<Rightarrow> PointCloudBase \<Rightarrow> PointCloudBase" where
  "show_points ps s =
     (let c1 = (if point_decay_time s = 0 then clear (cloud s) else cloud s);
          c2 = (if ps \<noteq> [] then addPoints ps c1 else c1)
      in causeRender (s\<lparr>cloud := c2\<rparr>))"

definition transformCloud ::
  "Collaborators \<Rightarrow> CloudInfo \<Rightarrow> PointCloudBase \<Rightarrow> error + CloudInfo \<times> PointCloudBase" where
  "transformCloud env info s =
     (let (cl1, s1) = reproject env (message info) s;
          point_count = length (pts cl1);
          (chans, valid_channels, s2, use_normals) =
             check_channels point_count (chan cl1) s1 False;
          cl2 = cl1\<lparr>chan := chans\<rparr>;
          (nx_idx, ny_idx, nz_idx, use_normals', s3) = look_for_normals cl2 use_normals s2;
          diff_intensity = max_intensity s3 - min_intensity s3
      in case make_points env (max_color s3) cl2 use_normals' nx_idx ny_idx nz_idx
                [0 ..< point_count] of
           Inl e \<Rightarrow> Inl e
         | Inr ps0 \<Rightarrow>
             Inr (info\<lparr>message := cl2, num_points := point_count\<rparr>,
                  show_points (color_points s3 diff_intensity (zip chans valid_channels) ps0) s3))"

definition processMessage ::
  "Collaborators \<Rightarrow> PointCloud \<Rightarrow> PointCloudBase \<Rightarrow> error + PointCloudBase" where
  "processMessage env cl s =
     (case transformCloud env \<lparr>message = cl, time = 0, num_points = 0\<rparr> s of
        Inl e \<Rightarrow> Inl e
      | Inr (info, s1) \<Rightarrow>
          Inr (s1\<lparr>clouds := (if point_decay_time s1 = 0 then [] else clouds s1) @ [info],
                  new_cloud := True\<rparr>))"

definition addMessage ::
  "Collaborators \<Rightarrow> PointCloud \<Rightarrow> PointCloudBase \<Rightarrow> error + PointCloudBase" where
  "addMessage env cl s = processMessage env cl s"

subsection \<open>Construction and call sequences\<close>

text \<open>
  The constructor: the member initialisers, then the four setter calls of its body. The
  frame comes from the base class \<^verbatim>\<open>Display\<close>. \<^verbatim>\<open>alpha_\<close> has no initialiser and is first
  written by \<^verbatim>\<open>setAlpha(1.0f)\<close>; the fresh renderer holds no points.
\<close>

definition initial_members :: "string \<Rightarrow> PointCloudBase" where
  "initial_members frame =
     \<lparr>new_cloud = False,
      min_color = \<lparr>col_r = 0, col_g = 0, col_b = 0\<rparr>,
      max_color = \<lparr>col_r = 1, col_g = 1, col_b = 1\<rparr>,
      min_intensity = 0,
      max_intensity = 4096,
      auto_compute_intensity_bounds = True,
      intensity_bounds_changed = False,
      style = Billboards,
      channel_color_idx = -1,
      billboard_size = 1 / 100,
      point_decay_time = 0,
      alpha = 1,
      clouds = [],
      cloud = \<lparr>points = [], cloud_alpha = 1, dimensions = (1 / 100, 1 / 100), use_points = False\<rparr>,
      fixed_frame = frame,
      created = (\<lambda>p. False),
      changed = [],
      channel_options = [],
      renders = 0,
      logged = []\<rparr>"

definition construct :: "string \<Rightarrow> error + PointCloudBase" where
  "construct frame =
     (let s0 = initial_members frame
      in case setStyle (style s0) s0 of
           Inl e \<Rightarrow> Inl e
         | Inr s1 \<Rightarrow>
             (let s2 = setBillboardSize (billboard_size s1) s1
              in case setChannelColorIndex (channel_color_idx s2) s2 of
                   Inl e \<Rightarrow> Inl e
                 | Inr s3 \<Rightarrow> Inr (setAlpha 1 s3)))"

text \<open>The public member functions, as the calls a client can make on the object.\<close>

datatype Call =
  SetStyle int
  | SetBillboardSize real
  | SetAlpha real
  | SetMinColor Color
  | SetMaxColor Color
  | SetDecayTime real
  | SetAutoComputeIntensityBounds bool
  | SetMinIntensity real
  | SetMaxIntensity real
  | SetChannelColorIndex int
  | CreateProperties
  | OnEnable
  | OnDisable
  | Update real
  | AddMessage PointCloud
  | FixedFrameChanged
  | Reset

fun call :: "Collaborators \<Rightarrow> Call \<Rightarrow> PointCloudBase \<Rightarrow> error + PointCloudBase" where
  "call env (SetStyle st) s = setStyle st s"
| "call env (SetBillboardSize sz) s = Inr (setBillboardSize sz s)"
| "call env (SetAlpha a) s = Inr (setAlpha a s)"
| "call env (SetMinColor c) s = Inr (setMinColor c s)"
| "call env (SetMaxColor c) s = Inr (setMaxColor c s)"
| "call env (SetDecayTime t) s = Inr (setDecayTime t s)"
| "call env (SetAutoComputeIntensityBounds b) s = Inr (setAutoComputeIntensityBounds b s)"
| "call env (SetMinIntensity v) s = Inr (setMinIntensity v s)"
| "call env (SetMaxIntensity v) s = Inr (setMaxIntensity v s)"
| "call env (SetChannelColorIndex idx) s = setChannelColorIndex idx s"
| "call env CreateProperties s = Inr (createProperties s)"
| "call env OnEnable s = Inr (onEnable s)"
| "call env OnDisable s = Inr (onDisable s)"
| "call env (Update dt) s = update dt s"
| "call env (AddMessage cl) s = addMessage env cl s"
| "call env FixedFrameChanged s = Inr (fixedFrameChanged s)"
| "call env Reset s = Inr (reset s)"

text \<open>A sequence of calls stops at the first one that has no successor state.\<close>

fun run :: "Collaborators \<Rightarrow> Call list \<Rightarrow> PointCloudBase \<Rightarrow> error + PointCloudBase" where
  "run env [] s = Inr s"
| "run env (c # cs) s = (case call env c s of Inl e \<Rightarrow> Inl e | Inr s1 \<Rightarrow> run env cs s1)"

text \<open>
  \<^verbatim>\<open>processMessage\<close> changes the object in two critical sections: the renderer inside
  \<^verbatim>\<open>transformCloud\<close> under the render lock (lines 595-607), the buffer afterwards under
  \<^verbatim>\<open>clouds_mutex_\<close> (lines 386-397). \<open>append_cloud\<close> is the second section;
  \<open>between_sections\<close> is the object when the first has been left and the second not yet
  entered; \<open>processMessage_interleaved\<close> lets other threads complete the calls \<open>between\<close>
  at that point.
\<close>

definition append_cloud :: "CloudInfo \<Rightarrow> PointCloudBase \<Rightarrow> PointCloudBase" where
  "append_cloud info s =
     s\<lparr>clouds := (if point_decay_time s = 0 then [] else clouds s) @ [info],
       new_cloud := True\<rparr>"


definition processMessage_interleaved ::
  "Collaborators \<Rightarrow> PointCloud \<Rightarrow> Call list \<Rightarrow> PointCloudBase \<Rightarrow> error + PointCloudBase"
where
  "processMessage_interleaved env cl between s =
     (case transformCloud env \<lparr>message = cl, time = 0, num_points = 0\<rparr> s of
        Inl e \<Rightarrow> Inl e
      | Inr (info, s1) \<Rightarrow>
          (case run env between s1 of
             Inl e \<Rightarrow> Inl e
           | Inr s2 \<Rightarrow> Inr (append_cloud info s2)))"

subsection \<open>Notions of the specification\<close>

text \<open>The invariant of section 3 on the intensity bounds.\<close>

definition bounds_ordered :: "PointCloudBase \<Rightarrow> bool" where
  "bounds_ordered s \<longleftrightarrow> min_intensity s \<le> max_intensity s"




text \<open>Section 4.4: the weight \<open>t\<close> of the intensity colorizer.\<close>

definition intensity_weight :: "real \<Rightarrow> real \<Rightarrow> real \<Rightarrow> real" where
  "intensity_weight v min_i diff =
     (if diff > 0 then min 1 (max 0 ((v - min_i) / diff)) else 1)"

text \<open>Section 4.3: a channel value under the ceiling of 4096.\<close>

definition cap :: "float32 \<Rightarrow> float32" where
  "cap v = (if 4096 < fval v then float_4096 else v)"

text \<open>The notification a setter owes the property \<open>p\<close>: none while \<open>p\<close> is NULL.\<close>

definition notification :: "PointCloudBase \<Rightarrow> Property \<Rightarrow> Property list" where
  "notification s p = (if created s p then [p] else [])"


text \<open>An intensity channel with one value per point, for a cloud of \<open>n\<close> points.\<close>

definition sized_intensity_channel :: "nat \<Rightarrow> ChannelFloat32 \<Rightarrow> bool" where
  "sized_intensity_channel n c \<longleftrightarrow>
     (name c = ''intensity'' \<or> name c = ''intensities'') \<and> length (vals c) = n"

text \<open>The points that a call of \<open>addMessage\<close> from \<open>s\<close> to \<open>s'\<close> handed to the renderer.\<close>

definition new_points :: "PointCloudBase \<Rightarrow> PointCloudBase \<Rightarrow> Point list" where
  "new_points s s' =
     drop (if point_decay_time s = 0 then 0 else length (points (cloud s))) (points (cloud s'))"


text \<open>The same table without the names \<open>g\<close> and \<open>b\<close>; the options it yields for the
  channels of a cloud, in the order of the channels; and the role of the first option.\<close>

definition offered_option :: "string \<Rightarrow> (string \<times> int) option" where
  "offered_option nm =
     (if nm = ''intensity'' \<or> nm = ''intensities'' then Some (''Intensity'', Intensity)
      else if nm = ''rgb'' \<or> nm = ''r'' then Some (''Color (RGB)'', ColorRGBSpace)
      else if nm = ''nx'' then Some (''Normal Sphere'', NormalSphere)
      else if nm = ''curvature'' \<or> nm = ''curvatures'' then Some (''Curvature'', Curvature)
      else None)"



text \<open>The calls that leave a decay time of 0 at 0 and do not reset the buffer.\<close>

fun keeps_zero_decay :: "Call \<Rightarrow> bool" where
  "keeps_zero_decay (SetDecayTime t) = (t = 0)"
| "keeps_zero_decay OnDisable = False"
| "keeps_zero_decay FixedFrameChanged = False"
| "keeps_zero_decay Reset = False"
| "keeps_zero_decay c = True"

text \<open>Section 8: a byte triple packed as \<open>0x00RRGGBB\<close>.\<close>

definition pack_rgb :: "8 word \<Rightarrow> 8 word \<Rightarrow> 8 word \<Rightarrow> 32 word" where
  "pack_rgb r g b = push_bit 16 (ucast r) OR push_bit 8 (ucast g) OR ucast b"

text \<open>The colour of an output point.\<close>

definition color_of :: "Point \<Rightarrow> Color" where
  "color_of p = \<lparr>col_r = pt_r p, col_g = pt_g p, col_b = pt_b p\<rparr>"

text \<open>Reading one component of the object after a call; an error stays an error.\<close>

definition outcome :: "(PointCloudBase \<Rightarrow> 'a) \<Rightarrow> error + PointCloudBase \<Rightarrow> error + 'a" where
  "outcome f res = (case res of Inl e \<Rightarrow> Inl e | Inr s \<Rightarrow> Inr (f s))"

subsection \<open>Concrete inputs\<close>

text \<open>A listener for which every cloud is in the fixed frame already, and one that knows
  no transform at all; \<open>robotToOgre\<close> is taken to be a signed permutation of the axes.\<close>

definition fixed_tf :: Collaborators where
  "fixed_tf = \<lparr>transformPointCloud = (\<lambda>target cl. Some cl),
               robotToOgre = (\<lambda>(x, y, z). (- y, z, - x))\<rparr>"

definition no_tf :: Collaborators where
  "no_tf = \<lparr>transformPointCloud = (\<lambda>target cl. None),
            robotToOgre = (\<lambda>(x, y, z). (- y, z, - x))\<rparr>"

text \<open>A freshly constructed display in frame \<open>map\<close> whose properties have been created.\<close>

definition fresh_display :: PointCloudBase where
  "fresh_display =
     (case construct ''map'' of
        Inr s \<Rightarrow> createProperties s
      | Inl e \<Rightarrow> initial_members ''map'')"

definition fl :: "real \<Rightarrow> float32" where
  "fl x = \<lparr>fval = x, raw = 0\<rparr>"

text \<open>A cloud without points that carries an intensity channel without values.\<close>

definition empty_intensity_cloud :: PointCloud where
  "empty_intensity_cloud =
     \<lparr>frame_id = ''map'', pts = [], chan = [\<lparr>name = ''intensity'', vals = []\<rparr>]\<rparr>"

text \<open>Scenario 1 of section 8: three points with the intensities 0, 2 and 4.\<close>

definition ramp_cloud :: PointCloud where
  "ramp_cloud =
     \<lparr>frame_id = ''map'', pts = [(0, 0, 0), (1, 0, 0), (2, 0, 0)],
      chan = [\<lparr>name = ''intensity'', vals = [fl 0, fl 2, fl 4]\<rparr>]\<rparr>"

text \<open>Two points whose intensity channel is constant: its maximum equals its minimum.\<close>

definition constant_cloud :: PointCloud where
  "constant_cloud =
     \<lparr>frame_id = ''map'', pts = [(0, 0, 0), (1, 0, 0)],
      chan = [\<lparr>name = ''intensity'', vals = [fl 0, fl 0]\<rparr>]\<rparr>"



definition black :: Color where
  "black = \<lparr>col_r = 0, col_g = 0, col_b = 0\<rparr>"

definition white :: Color where
  "white = \<lparr>col_r = 1, col_g = 1, col_b = 1\<rparr>"

text \<open>Two points; the channel \<open>nx\<close> has no value at all, \<open>ny\<close> and \<open>nz\<close> have two.\<close>

definition empty_nx_cloud :: PointCloud where
  "empty_nx_cloud =
     \<lparr>frame_id = ''map'', pts = [(1, 2, 3), (4, 5, 6)],
      chan = [\<lparr>name = ''nx'', vals = []\<rparr>,
              \<lparr>name = ''ny'', vals = [fl 0, fl 0]\<rparr>,
              \<lparr>name = ''nz'', vals = [fl 0, fl 1]\<rparr>]\<rparr>"

text \<open>One point; \<open>nx\<close> and \<open>ny\<close> have their value, \<open>nz\<close> has none.\<close>

definition empty_nz_cloud :: PointCloud where
  "empty_nz_cloud =
     \<lparr>frame_id = ''map'', pts = [(1, 2, 3)],
      chan = [\<lparr>name = ''nx'', vals = [fl 1]\<rparr>,
              \<lparr>name = ''ny'', vals = [fl 0]\<rparr>,
              \<lparr>name = ''nz'', vals = []\<rparr>]\<rparr>"

text \<open>A display with decay time 1/2 that holds a cloud of two points aged 1/10 and a
  cloud of three points just received.\<close>

definition an_entry :: "nat \<Rightarrow> real \<Rightarrow> CloudInfo" where
  "an_entry n age =
     \<lparr>message = \<lparr>frame_id = ''map'', pts = replicate n (0, 0, 0), chan = []\<rparr>,
      time = age, num_points = n\<rparr>"

definition a_point :: Point where
  "a_point = \<lparr>pt_x = 0, pt_y = 0, pt_z = 0, pt_r = 1, pt_g = 1, pt_b = 1\<rparr>"

definition two_clouds :: PointCloudBase where
  "two_clouds =
     fresh_display\<lparr>point_decay_time := 1 / 2,
                   clouds := [an_entry 2 (1 / 10), an_entry 3 0],
                   cloud := (cloud fresh_display)\<lparr>points := replicate 5 a_point\<rparr>\<rparr>"

section \<open>Properties\<close>

lemmas setter_defs =
  setAlpha_def setMaxColor_def setMinColor_def setMinIntensity_def setMaxIntensity_def
  setDecayTime_def setAutoComputeIntensityBounds_def setStyle_def setChannelColorIndex_def
  setBillboardSize_def onEnable_def onDisable_def reset_def fixedFrameChanged_def
  createProperties_def causeRender_def notify_def clear_def addPoints_def popPoints_def

lemmas ingest_defs =
  addMessage_def processMessage_def transformCloud_def reproject_def look_for_normals_def
  show_points_def check_channel_def
  getROSCloudChannelIndex_def channel_value_def coordinates_def make_point_def vec_at_def
  channel_type_def selected_def float_4096_def

lemmas tick_defs =
  update_def rebroadcast_bounds_def expire_def age_clouds_def refresh_channels_def

lemma fresh_display_eq:
  "fresh_display =
     \<lparr>new_cloud = False,
      min_color = \<lparr>col_r = 0, col_g = 0, col_b = 0\<rparr>,
      max_color = \<lparr>col_r = 1, col_g = 1, col_b = 1\<rparr>,
      min_intensity = 0,
      max_intensity = 4096,
      auto_compute_intensity_bounds = True,
      intensity_bounds_changed = False,
      style = Billboards,
      channel_color_idx = -1,
      billboard_size = 1 / 100,
      point_decay_time = 0,
      alpha = 1,
      clouds = [],
      cloud = \<lparr>points = [], cloud_alpha = 1, dimensions = (1 / 100, 1 / 100), use_points = False\<rparr>,
      fixed_frame = ''map'',
      created = (\<lambda>p. True),
      changed = [],
      channel_options = [],
      renders = 2,
      logged = []\<rparr>"
  by (simp add: fresh_display_def construct_def initial_members_def setter_defs)

subsection \<open>The packed-RGB colorizer\<close>

lemma bit_of_byte: "bit (w :: 8 word) n \<Longrightarrow> n < 8"
  using bit_imp_le_length [of w n] by simp

lemma low_byte_mask: "(255 :: 32 word) = mask 8"
  by (simp add: mask_eq_exp_minus_1)

lemma red_byte: "signed_drop_bit 16 (pack_rgb r g b) AND 0xff = ucast r"
  unfolding pack_rgb_def low_byte_mask
  by (rule bit_word_eqI) (auto simp add: bit_simps dest: bit_of_byte)

lemma green_byte: "signed_drop_bit 8 (pack_rgb r g b) AND 0xff = ucast g"
  unfolding pack_rgb_def low_byte_mask
  by (rule bit_word_eqI) (auto simp add: bit_simps dest: bit_of_byte)

lemma blue_byte: "pack_rgb r g b AND 0xff = ucast b"
  unfolding pack_rgb_def low_byte_mask
  by (rule bit_word_eqI) (auto simp add: bit_simps dest: bit_of_byte)

lemma sint_byte: "sint (ucast (w :: 8 word) :: 32 word) = int (unat w)"
proof -
  have "uint w < 256" using uint_bounded [of w] by simp
  then have upper: "uint w < 2 ^ 31" by simp
  have lower: "- (2 ^ 31) \<le> uint w"
    by (rule order_trans [OF _ uint_nonnegative]) simp
  have "signed_take_bit 31 (uint w) = uint w"
    using lower upper by (rule signed_take_bit_int_eq_self)
  then show ?thesis by (simp add: signed_ucast_eq)
qed

lemma byte_value: "real_of_int (sint (ucast (w :: 8 word) :: 32 word)) = real (unat w)"
  by (simp only: sint_byte of_int_of_nat_eq)

text \<open>
  Claim C7. Whatever number a channel value denotes, if its bit pattern is the byte triple
  \<open>(r, g, b)\<close> packed as \<open>0x00RRGGBB\<close>, the packed-RGB colorizer sets the colour of the
  point to \<open>(r/255, g/255, b/255)\<close>. The position is kept, and the minimum colour, the
  intensity bounds and their difference do not enter the result.
\<close>

theorem transformRGB_packed_bytes:
  "transformRGB (v\<lparr>raw := pack_rgb r g b\<rparr>) p minc min_i max_i diff =
     p\<lparr>pt_r := real (unat r) / 255, pt_g := real (unat g) / 255, pt_b := real (unat b) / 255\<rparr>"
proof -
  have red: "real_of_int (sint (signed_drop_bit 16 (pack_rgb r g b) AND 0xff)) = real (unat r)"
    by (simp only: red_byte byte_value)
  have green: "real_of_int (sint (signed_drop_bit 8 (pack_rgb r g b) AND 0xff)) = real (unat g)"
    by (simp only: green_byte byte_value)
  have blue: "real_of_int (sint (pack_rgb r g b AND 0xff)) = real (unat b)"
    by (simp only: blue_byte byte_value)
  show ?thesis
    using red green blue by (simp add: transformRGB_def)
qed

subsection \<open>Setters\<close>

lemma setMinColor_effect:
  "min_color (setMinColor c s) = c \<and>
   changed (setMinColor c s) = changed s @ notification s min_color_property \<and>
   renders (setMinColor c s) = Suc (renders s)"
  by (simp add: setter_defs notification_def)

lemma setMaxColor_effect:
  "max_color (setMaxColor c s) = c \<and>
   changed (setMaxColor c s) = changed s @ notification s max_color_property \<and>
   renders (setMaxColor c s) = Suc (renders s)"
  by (simp add: setter_defs notification_def)

lemma setDecayTime_effect:
  "point_decay_time (setDecayTime t s) = t \<and>
   changed (setDecayTime t s) = changed s @ notification s decay_time_property \<and>
   renders (setDecayTime t s) = Suc (renders s)"
  by (simp add: setter_defs notification_def)

lemma setAutoComputeIntensityBounds_effect:
  "auto_compute_intensity_bounds (setAutoComputeIntensityBounds b s) = b \<and>
   changed (setAutoComputeIntensityBounds b s) =
     changed s @ notification s auto_compute_intensity_bounds_property \<and>
   renders (setAutoComputeIntensityBounds b s) = Suc (renders s)"
  by (simp add: setter_defs notification_def)

lemma setBillboardSize_effect:
  "billboard_size (setBillboardSize x s) = x \<and>
   dimensions (cloud (setBillboardSize x s)) = (x, x) \<and>
   changed (setBillboardSize x s) = changed s @ notification s billboard_size_property \<and>
   renders (setBillboardSize x s) = Suc (renders s)"
  by (simp add: setter_defs notification_def)

lemma setMinIntensity_effect:
  "min_intensity (setMinIntensity v s) = min v (max_intensity s) \<and>
   max_intensity (setMinIntensity v s) = max_intensity s \<and>
   changed (setMinIntensity v s) = changed s @ notification s min_intensity_property \<and>
   renders (setMinIntensity v s) = Suc (renders s)"
  by (simp add: setter_defs notification_def min_def)

lemma setMaxIntensity_effect:
  "max_intensity (setMaxIntensity v s) = max v (min_intensity s) \<and>
   min_intensity (setMaxIntensity v s) = min_intensity s \<and>
   changed (setMaxIntensity v s) = changed s @ notification s max_intensity_property \<and>
   renders (setMaxIntensity v s) = Suc (renders s)"
  by (simp add: setter_defs notification_def max_def)

lemma setStyle_effect:
  "st < StyleCount \<Longrightarrow>
   outcome style (setStyle st s) = Inr st \<and>
   outcome (use_points \<circ> cloud) (setStyle st s) = Inr (st = Points) \<and>
   outcome changed (setStyle st s) = Inr (changed s @ notification s style_property) \<and>
   outcome renders (setStyle st s) = Inr (Suc (renders s))"
  by (simp add: setter_defs notification_def outcome_def)

lemma setAlpha_effect:
  "alpha (setAlpha a s) = a \<and>
   cloud_alpha (cloud (setAlpha a s)) = a \<and>
   changed (setAlpha a s) = changed s @ notification s alpha_property"
  by (simp add: setter_defs notification_def)

lemma setChannelColorIndex_effect:
  "idx < ChannelRenderCount \<Longrightarrow> setChannelColorIndex idx s = Inr (s\<lparr>channel_color_idx := idx\<rparr>)"
  by (simp add: setter_defs)

text \<open>
  Claim C9, as the code has it. Each of \<open>setMinColor\<close>, \<open>setMaxColor\<close>, \<open>setDecayTime\<close>,
  \<open>setAutoComputeIntensityBounds\<close>, \<open>setBillboardSize\<close>, \<open>setMinIntensity\<close>,
  \<open>setMaxIntensity\<close> and (for a style below \<open>StyleCount\<close>) \<open>setStyle\<close> stores its argument, the
  intensity setters clamped against the other bound, then calls \<open>changed()\<close> on its
  property if that property exists, and requests one render. \<open>setAlpha\<close> stores alpha,
  hands it to the renderer and notifies its property if it exists. \<open>setChannelColorIndex\<close>,
  for an index below \<open>ChannelRenderCount\<close>, stores the index and does nothing else.
\<close>

theorem setters_store_notify_render:
  "(min_color (setMinColor c s) = c \<and>
    changed (setMinColor c s) = changed s @ notification s min_color_property \<and>
    renders (setMinColor c s) = Suc (renders s))
   \<and> (max_color (setMaxColor c s) = c \<and>
    changed (setMaxColor c s) = changed s @ notification s max_color_property \<and>
    renders (setMaxColor c s) = Suc (renders s))
   \<and> (point_decay_time (setDecayTime t s) = t \<and>
    changed (setDecayTime t s) = changed s @ notification s decay_time_property \<and>
    renders (setDecayTime t s) = Suc (renders s))
   \<and> (auto_compute_intensity_bounds (setAutoComputeIntensityBounds b s) = b \<and>
    changed (setAutoComputeIntensityBounds b s) =
      changed s @ notification s auto_compute_intensity_bounds_property \<and>
    renders (setAutoComputeIntensityBounds b s) = Suc (renders s))
   \<and> (billboard_size (setBillboardSize x s) = x \<and>
    dimensions (cloud (setBillboardSize x s)) = (x, x) \<and>
    changed (setBillboardSize x s) = changed s @ notification s billboard_size_property \<and>
    renders (setBillboardSize x s) = Suc (renders s))
   \<and> (min_intensity (setMinIntensity v s) = min v (max_intensity s) \<and>
    max_intensity (setMinIntensity v s) = max_intensity s \<and>
    changed (setMinIntensity v s) = changed s @ notification s min_intensity_property \<and>
    renders (setMinIntensity v s) = Suc (renders s))
   \<and> (max_intensity (setMaxIntensity v s) = max v (min_intensity s) \<and>
    min_intensity (setMaxIntensity v s) = min_intensity s \<and>
    changed (setMaxIntensity v s) = changed s @ notification s max_intensity_property \<and>
    renders (setMaxIntensity v s) = Suc (renders s))
   \<and> (st < StyleCount \<longrightarrow>
    outcome style (setStyle st s) = Inr st \<and>
    outcome (use_points \<circ> cloud) (setStyle st s) = Inr (st = Points) \<and>
    outcome changed (setStyle st s) = Inr (changed s @ notification s style_property) \<and>
    outcome renders (setStyle st s) = Inr (Suc (renders s)))
   \<and> (alpha (setAlpha a s) = a \<and>
    cloud_alpha (cloud (setAlpha a s)) = a \<and>
    changed (setAlpha a s) = changed s @ notification s alpha_property)
   \<and> (idx < ChannelRenderCount \<longrightarrow>
    setChannelColorIndex idx s = Inr (s\<lparr>channel_color_idx := idx\<rparr>))"
  using setMinColor_effect [of c s] setMaxColor_effect [of c s] setDecayTime_effect [of t s]
    setAutoComputeIntensityBounds_effect [of b s] setBillboardSize_effect [of x s]
    setMinIntensity_effect [of v s] setMaxIntensity_effect [of v s] setStyle_effect [of st s]
    setAlpha_effect [of a s] setChannelColorIndex_effect [of idx s]
  by blast

theorem setters_store_notify_render_witness:
  "changed (setMinIntensity 5000 fresh_display) = [min_intensity_property]
   \<and> renders (setMinIntensity 5000 fresh_display) = 3
   \<and> min_intensity (setMinIntensity 5000 fresh_display) = 4096
   \<and> outcome changed (setStyle Points fresh_display) = Inr [style_property]
   \<and> outcome renders (setStyle Points fresh_display) = Inr 3
   \<and> changed (setAlpha (1 / 2) fresh_display) = [alpha_property]
   \<and> outcome channel_color_idx (setChannelColorIndex Curvature fresh_display) = Inr Curvature"
  using setters_store_notify_render
    [of "\<lparr>col_r = 0, col_g = 0, col_b = 0\<rparr>" fresh_display 0 True 1 5000 Points "1 / 2" Curvature]
  by (simp add: fresh_display_eq notification_def outcome_def)

text \<open>
  Claim C9 as stated fails: on a display whose Channel property exists,
  \<open>setChannelColorIndex\<close> leaves the list of notifications and the count of render
  requests as they were.
\<close>

theorem setChannelColorIndex_is_silent:
  "created fresh_display channel_property
   \<and> outcome channel_color_idx (setChannelColorIndex Curvature fresh_display) = Inr Curvature
   \<and> outcome changed (setChannelColorIndex Curvature fresh_display) = Inr (changed fresh_display)
   \<and> outcome renders (setChannelColorIndex Curvature fresh_display) = Inr (renders fresh_display)"
  by (simp add: fresh_display_eq setChannelColorIndex_def outcome_def)

subsection \<open>The tick\<close>

lemma pop_expired_dropWhile:
  "pop_expired d cs c removed =
     (dropWhile (\<lambda>info. time info > d) cs,
      foldl (\<lambda>c info. popPoints (num_points info) c) c (takeWhile (\<lambda>info. time info > d) cs),
      removed \<or> takeWhile (\<lambda>info. time info > d) cs \<noteq> [])"
  by (induction cs arbitrary: c removed) auto

lemma expire_clouds:
  "clouds (expire s) =
     (if point_decay_time s > 0 then dropWhile (\<lambda>info. time info > point_decay_time s) (clouds s)
      else clouds s)"
  by (simp add: expire_def pop_expired_dropWhile causeRender_def Let_def)

lemma expire_cloud:
  "cloud (expire s) =
     (if point_decay_time s > 0 then
        foldl (\<lambda>c info. popPoints (num_points info) c) (cloud s)
          (takeWhile (\<lambda>info. time info > point_decay_time s) (clouds s))
      else cloud s)"
  by (simp add: expire_def pop_expired_dropWhile causeRender_def Let_def)

lemma expire_keeps:
  "created (expire s) = created s"
  "channel_color_idx (expire s) = channel_color_idx s"
  "new_cloud (expire s) = new_cloud s"
  "point_decay_time (expire s) = point_decay_time s"
  "min_intensity (expire s) = min_intensity s"
  "max_intensity (expire s) = max_intensity s"
  by (simp_all add: expire_def causeRender_def Let_def split: prod.splits)

lemma rebroadcast_keeps:
  "clouds (rebroadcast_bounds s) = clouds s"
  "cloud (rebroadcast_bounds s) = cloud s"
  "point_decay_time (rebroadcast_bounds s) = point_decay_time s"
  "new_cloud (rebroadcast_bounds s) = new_cloud s"
  "created (rebroadcast_bounds s) = created s"
  "channel_color_idx (rebroadcast_bounds s) = channel_color_idx s"
  by (simp_all add: rebroadcast_bounds_def setter_defs Let_def)

lemma refresh_keeps:
  assumes "refresh_channels s = Inr s'"
  shows "clouds s' = clouds s" "cloud s' = cloud s" "point_decay_time s' = point_decay_time s"
    "min_intensity s' = min_intensity s" "max_intensity s' = max_intensity s"
  using assms
  by (auto simp add: refresh_channels_def setter_defs Let_def
      split: list.splits if_splits prod.splits)

lemma update_keeps:
  assumes "update dt s = Inr s'"
  shows "clouds s' = clouds (expire (rebroadcast_bounds s\<lparr>clouds := age_clouds dt (clouds s)\<rparr>))"
    and "cloud s' = cloud (expire (rebroadcast_bounds s\<lparr>clouds := age_clouds dt (clouds s)\<rparr>))"
    and "point_decay_time s' = point_decay_time s"
  using assms
  by (auto simp add: update_def Let_def rebroadcast_keeps expire_keeps
      split: sum.splits if_splits dest: refresh_keeps)

lemma add_channel_options_idx:
  "idx < ChannelRenderCount \<Longrightarrow> fst (add_channel_options cs idx opts) < ChannelRenderCount"
  by (induction cs arbitrary: idx opts) auto

lemma refresh_channels_returns:
  assumes "created s channel_property" "channel_color_idx s < ChannelRenderCount"
  shows "\<exists>s'. refresh_channels s = Inr s'"
proof (cases "clouds s")
  case Nil
  then show ?thesis by (simp add: refresh_channels_def)
next
  case (Cons front rest)
  obtain idx opts where r:
    "add_channel_options (chan (message front)) (channel_color_idx s) [] = (idx, opts)"
    by (cases "add_channel_options (chan (message front)) (channel_color_idx s) []")
  from add_channel_options_idx [OF assms(2), of "chan (message front)" "[]"] r
  have "idx < ChannelRenderCount" by simp
  with Cons assms(1) r show ?thesis
    by (simp add: refresh_channels_def setChannelColorIndex_def)
qed

lemma update_returns:
  assumes "created s channel_property" "channel_color_idx s < ChannelRenderCount"
  shows "\<exists>s'. update dt s = Inr s'"
proof -
  let ?s3 = "expire (rebroadcast_bounds s\<lparr>clouds := age_clouds dt (clouds (rebroadcast_bounds s))\<rparr>)"
  have "created ?s3 channel_property" "channel_color_idx ?s3 < ChannelRenderCount"
    using assms by (simp_all add: expire_keeps rebroadcast_keeps)
  then obtain s4 where "refresh_channels ?s3 = Inr s4"
    using refresh_channels_returns by blast
  then show ?thesis
    by (simp add: update_def Let_def)
qed

text \<open>
  Claim C3. A tick returns whenever the Channel property exists and the selection is a
  legal index. Whenever it returns, the buffer it leaves is the old buffer with \<open>dt\<close> added
  to every age and then, if and only if the decay time is positive, without its longest
  prefix of entries older than the decay time; the renderer has been asked to pop the
  recorded point count of each removed entry, in order, and nothing else. What remains is
  a suffix of the aged buffer: only heads are removed.
\<close>

theorem update_ages_then_evicts_heads:
  "(created s channel_property \<and> channel_color_idx s < ChannelRenderCount
      \<longrightarrow> (\<exists>s'. update dt s = Inr s'))
   \<and> (\<forall>s'. update dt s = Inr s' \<longrightarrow>
        (let aged = map (\<lambda>info. info\<lparr>time := time info + dt\<rparr>) (clouds s);
             old = (\<lambda>info. time info > point_decay_time s)
         in if point_decay_time s > 0 then
              clouds s' = dropWhile old aged
              \<and> cloud s' = foldl (\<lambda>c info. popPoints (num_points info) c) (cloud s)
                             (takeWhile old aged)
            else clouds s' = aged \<and> cloud s' = cloud s))"
proof (intro conjI impI allI)
  assume "created s channel_property \<and> channel_color_idx s < ChannelRenderCount"
  then show "\<exists>s'. update dt s = Inr s'"
    using update_returns by blast
next
  fix s'
  assume u: "update dt s = Inr s'"
  show "let aged = map (\<lambda>info. info\<lparr>time := time info + dt\<rparr>) (clouds s);
            old = (\<lambda>info. time info > point_decay_time s)
        in if point_decay_time s > 0 then
             clouds s' = dropWhile old aged
             \<and> cloud s' = foldl (\<lambda>c info. popPoints (num_points info) c) (cloud s)
                            (takeWhile old aged)
           else clouds s' = aged \<and> cloud s' = cloud s"
    using update_keeps(1,2) [OF u]
    by (simp add: Let_def expire_clouds expire_cloud rebroadcast_keeps age_clouds_def)
qed

theorem update_ages_then_evicts_heads_witness:
  "outcome clouds (update (9 / 20) two_clouds) = Inr [an_entry 3 (9 / 20)]
   \<and> outcome (points \<circ> cloud) (update (9 / 20) two_clouds) = Inr (replicate 3 a_point)"
proof -
  have pre: "created two_clouds channel_property \<and> channel_color_idx two_clouds < ChannelRenderCount"
    by (simp add: two_clouds_def fresh_display_eq)
  with update_ages_then_evicts_heads [of two_clouds "9 / 20"]
  obtain s' where u: "update (9 / 20) two_clouds = Inr s'"
    by blast
  with update_ages_then_evicts_heads [of two_clouds "9 / 20"]
  have "clouds s' = [an_entry 3 (9 / 20)] \<and> points (cloud s') = replicate 3 a_point"
    by (simp add: two_clouds_def fresh_display_eq an_entry_def popPoints_def Let_def
        numeral_3_eq_3 numeral_2_eq_2)
  with u show ?thesis
    by (simp add: outcome_def)
qed

subsection \<open>The ingest pipeline\<close>

lemma fval_cap: "fval (cap v) = min (fval v) 4096"
  by (simp add: cap_def float_4096_def)

lemma compute_bounds_eq:
  "compute_bounds vs a b =
     (map cap vs, foldl min a (map (\<lambda>v. fval (cap v)) vs), foldl max b (map (\<lambda>v. fval (cap v)) vs))"
  by (induction vs arbitrary: a b) (simp_all add: cap_def Let_def)

lemma foldl_min_le: "foldl min (a :: real) xs \<le> a"
proof (induction xs arbitrary: a)
  case Nil
  show ?case by simp
next
  case (Cons x xs)
  have "foldl min (min a x) xs \<le> min a x" by (rule Cons.IH)
  then show ?case by simp
qed

lemma foldl_max_ge: "(b :: real) \<le> foldl max b xs"
proof (induction xs arbitrary: b)
  case Nil
  show ?case by simp
next
  case (Cons x xs)
  have "max b x \<le> foldl max (max b x) xs" by (rule Cons.IH)
  then show ?case by simp
qed

lemma compute_bounds_ordered:
  assumes "compute_bounds vs a b = (vs', mn, mx)" "vs \<noteq> []"
  shows "mn \<le> mx"
proof -
  from assms(2) obtain v rest where vs: "vs = v # rest" by (cases vs) auto
  let ?x = "fval (cap v)"
  let ?ys = "map (\<lambda>v. fval (cap v)) rest"
  have "mn = foldl min (min a ?x) ?ys" "mx = foldl max (max b ?x) ?ys"
    using assms(1) vs by (simp_all add: compute_bounds_eq)
  moreover have "foldl min (min a ?x) ?ys \<le> min a ?x" by (rule foldl_min_le)
  moreover have "max b ?x \<le> foldl max (max b ?x) ?ys" by (rule foldl_max_ge)
  ultimately show ?thesis by simp
qed

lemma check_channel_fields:
  assumes "check_channel n c s un = (c', ok, s', un')"
  shows "clouds s' = clouds s" "cloud s' = cloud s" "point_decay_time s' = point_decay_time s"
    "channel_color_idx s' = channel_color_idx s" "max_color s' = max_color s"
    "min_color s' = min_color s" "new_cloud s' = new_cloud s"
    "auto_compute_intensity_bounds s' = auto_compute_intensity_bounds s"
    "created s' = created s" "changed s' = changed s" "renders s' = renders s"
    "fixed_frame s' = fixed_frame s"
    "ok = (length (vals c) = n)" "name c' = name c" "length (vals c') = length (vals c)"
  using assms
  by (auto simp add: check_channel_def Let_def compute_bounds_eq split: if_splits)

lemma check_channel_ordered:
  assumes "check_channel n c s un = (c', ok, s', un')" "bounds_ordered s" "0 < n"
  shows "bounds_ordered s'"
proof (cases "min_intensity s' = min_intensity s \<and> max_intensity s' = max_intensity s")
  case True
  with assms(2) show ?thesis by (simp add: bounds_ordered_def)
next
  case False
  with assms(1) obtain vs where
    "compute_bounds (vals c) 999999 (-999999) = (vs, min_intensity s', max_intensity s')"
    "length (vals c) = n"
    by (auto simp add: check_channel_def Let_def split: if_splits prod.splits)
  with assms(3) compute_bounds_ordered [of "vals c"] show ?thesis
    by (auto simp add: bounds_ordered_def)
qed

lemma check_channels_fields:
  assumes "check_channels n cs s un = (cs', valid, s', un')"
  shows "clouds s' = clouds s \<and> cloud s' = cloud s \<and> point_decay_time s' = point_decay_time s
    \<and> channel_color_idx s' = channel_color_idx s \<and> max_color s' = max_color s
    \<and> min_color s' = min_color s \<and> new_cloud s' = new_cloud s
    \<and> auto_compute_intensity_bounds s' = auto_compute_intensity_bounds s
    \<and> created s' = created s \<and> changed s' = changed s \<and> renders s' = renders s
    \<and> fixed_frame s' = fixed_frame s"
  using assms
proof (induction cs arbitrary: s un cs' valid s' un')
  case Nil
  then show ?case by simp
next
  case (Cons c cs)
  obtain c1 ok s1 un1 where one: "check_channel n c s un = (c1, ok, s1, un1)"
    by (cases "check_channel n c s un") auto
  obtain cs2 valid2 s2 un2 where rest: "check_channels n cs s1 un1 = (cs2, valid2, s2, un2)"
    by (cases "check_channels n cs s1 un1") auto
  from Cons.prems one rest have "s' = s2" by simp
  with Cons.IH [OF rest] check_channel_fields [OF one] show ?case by simp
qed

lemma check_channels_shape:
  assumes "check_channels n cs s un = (cs', valid, s', un')"
  shows "map name cs' = map name cs
    \<and> map (\<lambda>c. length (vals c)) cs' = map (\<lambda>c. length (vals c)) cs
    \<and> valid = map (\<lambda>c. length (vals c) = n) cs"
  using assms
proof (induction cs arbitrary: s un cs' valid s' un')
  case Nil
  then show ?case by simp
next
  case (Cons c cs)
  obtain c1 ok s1 un1 where one: "check_channel n c s un = (c1, ok, s1, un1)"
    by (cases "check_channel n c s un") auto
  obtain cs2 valid2 s2 un2 where rest: "check_channels n cs s1 un1 = (cs2, valid2, s2, un2)"
    by (cases "check_channels n cs s1 un1") auto
  from Cons.prems one rest have "cs' = c1 # cs2" "valid = ok # valid2" by simp_all
  with Cons.IH [OF rest] check_channel_fields(13-15) [OF one] show ?case by simp
qed

lemma check_channels_ordered:
  assumes "check_channels n cs s un = (cs', valid, s', un')" "bounds_ordered s" "0 < n"
  shows "bounds_ordered s'"
  using assms
proof (induction cs arbitrary: s un cs' valid s' un')
  case Nil
  then show ?case by simp
next
  case (Cons c cs)
  obtain c1 ok s1 un1 where one: "check_channel n c s un = (c1, ok, s1, un1)"
    by (cases "check_channel n c s un") auto
  obtain cs2 valid2 s2 un2 where rest: "check_channels n cs s1 un1 = (cs2, valid2, s2, un2)"
    by (cases "check_channels n cs s1 un1") auto
  from Cons.prems(1) one rest have "s' = s2" by simp
  moreover have "bounds_ordered s1"
    using check_channel_ordered [OF one Cons.prems(2) Cons.prems(3)] .
  ultimately show ?case using Cons.IH [OF rest _ Cons.prems(3)] by simp
qed

lemma valid_channels_sized:
  assumes "check_channels n cs s un = (cs', valid, s', un')"
  shows "\<forall>(c, ok) \<in> set (zip cs' valid). ok \<longrightarrow> length (vals c) = n"
proof -
  note sh = check_channels_shape [OF assms]
  have len: "length cs' = length cs" using sh by (metis length_map)
  { fix i assume i: "i < length cs'" "i < length valid" "valid ! i"
    have "length (vals (cs' ! i)) = map (\<lambda>c. length (vals c)) cs' ! i"
      using i by simp
    also have "\<dots> = length (vals (cs ! i))"
      using sh i len by simp
    also have "\<dots> = n"
      using sh i len by simp
    finally have "length (vals (cs' ! i)) = n" . }
  then show ?thesis
    by (auto simp add: set_zip)
qed

lemma make_point_color:
  "make_point env maxc cl un nx ny nz i = Inr p \<Longrightarrow> color_of p = maxc"
  by (auto simp add: make_point_def color_of_def split: sum.splits prod.splits)

lemma make_points_result:
  "make_points env maxc cl un nx ny nz is = Inr ps \<Longrightarrow>
     length ps = length is \<and> (\<forall>p \<in> set ps. color_of p = maxc)"
proof (induction "is" arbitrary: ps)
  case Nil
  then show ?case by simp
next
  case (Cons i rest)
  then show ?case
    by (auto split: sum.splits dest: make_point_color)
qed

lemma color_points_length:
  assumes "\<forall>(c, ok) \<in> set cvs. ok \<longrightarrow> length (vals c) = length ps"
  shows "length (color_points s d cvs ps) = length ps"
  using assms
proof (induction cvs arbitrary: ps)
  case Nil
  then show ?case by simp
next
  case (Cons cv cvs)
  obtain c ok where cv: "cv = (c, ok)" by (cases cv)
  show ?case
    using Cons.prems Cons.IH cv
    by (auto split: option.splits)
qed

lemma reproject_fields:
  assumes "reproject env cl s = (cl1, s1)"
  shows "clouds s1 = clouds s" "cloud s1 = cloud s" "point_decay_time s1 = point_decay_time s"
    "channel_color_idx s1 = channel_color_idx s" "created s1 = created s"
    "max_color s1 = max_color s" "min_color s1 = min_color s"
    "min_intensity s1 = min_intensity s" "max_intensity s1 = max_intensity s"
    "auto_compute_intensity_bounds s1 = auto_compute_intensity_bounds s"
    "new_cloud s1 = new_cloud s" "changed s1 = changed s" "renders s1 = renders s"
  using assms by (auto simp add: reproject_def Let_def split: option.splits)

lemma look_for_normals_fields:
  assumes "look_for_normals cl un s = (nx, ny, nz, un', s')"
  shows "clouds s' = clouds s" "cloud s' = cloud s" "point_decay_time s' = point_decay_time s"
    "channel_color_idx s' = channel_color_idx s" "created s' = created s"
    "max_color s' = max_color s" "min_color s' = min_color s"
    "min_intensity s' = min_intensity s" "max_intensity s' = max_intensity s"
    "auto_compute_intensity_bounds s' = auto_compute_intensity_bounds s"
    "new_cloud s' = new_cloud s" "changed s' = changed s" "renders s' = renders s"
  using assms by (auto simp add: look_for_normals_def Let_def split: if_splits)

lemma show_points_fields:
  "points (cloud (show_points ps s)) = (if point_decay_time s = 0 then [] else points (cloud s)) @ ps"
  "clouds (show_points ps s) = clouds s"
  "point_decay_time (show_points ps s) = point_decay_time s"
  "channel_color_idx (show_points ps s) = channel_color_idx s"
  "created (show_points ps s) = created s"
  "max_color (show_points ps s) = max_color s" "min_color (show_points ps s) = min_color s"
  "min_intensity (show_points ps s) = min_intensity s"
  "max_intensity (show_points ps s) = max_intensity s"
  "auto_compute_intensity_bounds (show_points ps s) = auto_compute_intensity_bounds s"
  "new_cloud (show_points ps s) = new_cloud s" "changed (show_points ps s) = changed s"
  "renders (show_points ps s) = Suc (renders s)"
  by (simp_all add: show_points_def Let_def causeRender_def addPoints_def clear_def)

text \<open>A call of \<open>transformCloud\<close> that returns went through these stages.\<close>

lemma transformCloud_stages:
  assumes "transformCloud env info s = Inr (info', s')"
  obtains cl1 s1 chans valid s2 un nx ny nz un' s3 ps0 where
    "reproject env (message info) s = (cl1, s1)"
    "check_channels (length (pts cl1)) (chan cl1) s1 False = (chans, valid, s2, un)"
    "look_for_normals (cl1\<lparr>chan := chans\<rparr>) un s2 = (nx, ny, nz, un', s3)"
    "make_points env (max_color s3) (cl1\<lparr>chan := chans\<rparr>) un' nx ny nz [0 ..< length (pts cl1)]
       = Inr ps0"
    "info' = info\<lparr>message := cl1\<lparr>chan := chans\<rparr>, num_points := length (pts cl1)\<rparr>"
    "s' = show_points
            (color_points s3 (max_intensity s3 - min_intensity s3) (zip chans valid) ps0) s3"
proof -
  obtain cl1 s1 where r: "reproject env (message info) s = (cl1, s1)"
    by (cases "reproject env (message info) s")
  obtain chans valid s2 un where cc:
    "check_channels (length (pts cl1)) (chan cl1) s1 False = (chans, valid, s2, un)"
    by (cases "check_channels (length (pts cl1)) (chan cl1) s1 False") auto
  obtain nx ny nz un' s3 where ln:
    "look_for_normals (cl1\<lparr>chan := chans\<rparr>) un s2 = (nx, ny, nz, un', s3)"
    by (cases "look_for_normals (cl1\<lparr>chan := chans\<rparr>) un s2") auto
  let ?mp = "make_points env (max_color s3) (cl1\<lparr>chan := chans\<rparr>) un' nx ny nz
               [0 ..< length (pts cl1)]"
  have unfold: "transformCloud env info s =
      (case ?mp of Inl e \<Rightarrow> Inl e
       | Inr ps0 \<Rightarrow>
           Inr (info\<lparr>message := cl1\<lparr>chan := chans\<rparr>, num_points := length (pts cl1)\<rparr>,
                show_points
                  (color_points s3 (max_intensity s3 - min_intensity s3) (zip chans valid) ps0)
                  s3))"
    by (simp add: transformCloud_def Let_def r cc ln)
  from assms unfold obtain ps0 where mp: "?mp = Inr ps0"
    by (cases ?mp) simp_all
  from assms unfold mp have
    "info' = info\<lparr>message := cl1\<lparr>chan := chans\<rparr>, num_points := length (pts cl1)\<rparr>"
    "s' = show_points
            (color_points s3 (max_intensity s3 - min_intensity s3) (zip chans valid) ps0) s3"
    by simp_all
  with r cc ln mp show ?thesis by (rule that)
qed

lemma transformCloud_result:
  assumes "transformCloud env info s = Inr (info', s')"
  shows "\<exists>ps. num_points info' = length ps
      \<and> time info' = time info
      \<and> points (cloud s') = (if point_decay_time s = 0 then [] else points (cloud s)) @ ps
      \<and> clouds s' = clouds s
      \<and> point_decay_time s' = point_decay_time s
      \<and> channel_color_idx s' = channel_color_idx s
      \<and> created s' = created s"
proof -
  from assms obtain cl1 s1 chans valid s2 un nx ny nz un' s3 ps0 where
    r: "reproject env (message info) s = (cl1, s1)" and
    cc: "check_channels (length (pts cl1)) (chan cl1) s1 False = (chans, valid, s2, un)" and
    ln: "look_for_normals (cl1\<lparr>chan := chans\<rparr>) un s2 = (nx, ny, nz, un', s3)" and
    mp: "make_points env (max_color s3) (cl1\<lparr>chan := chans\<rparr>) un' nx ny nz
           [0 ..< length (pts cl1)] = Inr ps0" and
    info': "info' = info\<lparr>message := cl1\<lparr>chan := chans\<rparr>, num_points := length (pts cl1)\<rparr>" and
    s': "s' = show_points
           (color_points s3 (max_intensity s3 - min_intensity s3) (zip chans valid) ps0) s3"
    by (rule transformCloud_stages)
  let ?ps = "color_points s3 (max_intensity s3 - min_intensity s3) (zip chans valid) ps0"
  have len0: "length ps0 = length (pts cl1)"
    using make_points_result [OF mp] by simp
  have "\<forall>(c, ok) \<in> set (zip chans valid). ok \<longrightarrow> length (vals c) = length ps0"
    using valid_channels_sized [OF cc] len0 by simp
  then have len: "length ?ps = length (pts cl1)"
    using color_points_length len0 by metis
  note f1 = reproject_fields [OF r]
  note f2 = check_channels_fields [OF cc]
  note f3 = look_for_normals_fields [OF ln]
  show ?thesis
  proof (intro exI [of _ ?ps] conjI)
    show "num_points info' = length ?ps" using info' len by simp
    show "time info' = time info" using info' by simp
    show "points (cloud s') = (if point_decay_time s = 0 then [] else points (cloud s)) @ ?ps"
      unfolding s' using f1(2,3) f2 f3(2,3) by (simp add: show_points_fields)
    show "clouds s' = clouds s" unfolding s' using f1(1) f2 f3(1) by (simp add: show_points_fields)
    show "point_decay_time s' = point_decay_time s"
      unfolding s' using f1(3) f2 f3(3) by (simp add: show_points_fields)
    show "channel_color_idx s' = channel_color_idx s"
      unfolding s' using f1(4) f2 f3(4) by (simp add: show_points_fields)
    show "created s' = created s"
      unfolding s' using f1(5) f2 f3(5) by (simp add: show_points_fields)
  qed
qed

lemma addMessage_result:
  assumes "addMessage env cl s = Inr s'"
  shows "\<exists>info ps. clouds s' = (if point_decay_time s = 0 then [] else clouds s) @ [info]
      \<and> points (cloud s') = (if point_decay_time s = 0 then [] else points (cloud s)) @ ps
      \<and> num_points info = length ps \<and> time info = 0
      \<and> point_decay_time s' = point_decay_time s \<and> new_cloud s'
      \<and> channel_color_idx s' = channel_color_idx s \<and> created s' = created s"
proof -
  let ?info0 = "\<lparr>message = cl, time = 0, num_points = 0\<rparr>"
  from assms obtain info s1 where
    t: "transformCloud env ?info0 s = Inr (info, s1)" and
    s': "s' = s1\<lparr>clouds := (if point_decay_time s1 = 0 then [] else clouds s1) @ [info],
                new_cloud := True\<rparr>"
    by (auto simp add: addMessage_def processMessage_def split: sum.splits)
  from transformCloud_result [OF t] obtain ps where ps:
    "num_points info = length ps" "time info = time ?info0"
    "points (cloud s1) = (if point_decay_time s = 0 then [] else points (cloud s)) @ ps"
    "clouds s1 = clouds s" "point_decay_time s1 = point_decay_time s"
    "channel_color_idx s1 = channel_color_idx s" "created s1 = created s"
    by blast
  show ?thesis
    by (rule exI [of _ info], rule exI [of _ ps]) (use s' ps in simp)
qed

text \<open>The entry that \<open>addMessage\<close> appends holds the reprojected cloud: its points, its
  frame and its channels by name, and records the number of its points.\<close>

lemma addMessage_entry:
  assumes "addMessage env cl s = Inr s'"
  shows "pts (message (last (clouds s'))) = pts (fst (reproject env cl s))
      \<and> frame_id (message (last (clouds s'))) = frame_id (fst (reproject env cl s))
      \<and> map name (chan (message (last (clouds s')))) = map name (chan (fst (reproject env cl s)))
      \<and> num_points (last (clouds s')) = length (pts (fst (reproject env cl s)))"
proof -
  let ?info0 = "\<lparr>message = cl, time = 0, num_points = 0\<rparr>"
  from assms obtain info s1 where
    t: "transformCloud env ?info0 s = Inr (info, s1)" and
    s': "s' = s1\<lparr>clouds := (if point_decay_time s1 = 0 then [] else clouds s1) @ [info],
                new_cloud := True\<rparr>"
    by (auto simp add: addMessage_def processMessage_def split: sum.splits)
  from t obtain cl1 s0 chans valid s2 un where
    r: "reproject env (message ?info0) s = (cl1, s0)" and
    cc: "check_channels (length (pts cl1)) (chan cl1) s0 False = (chans, valid, s2, un)" and
    info: "info = ?info0\<lparr>message := cl1\<lparr>chan := chans\<rparr>, num_points := length (pts cl1)\<rparr>"
    by (rule transformCloud_stages)
  from r have cl1: "fst (reproject env cl s) = cl1" by simp
  have "last (clouds s') = info" using s' by simp
  with info cl1 check_channels_shape [OF cc] show ?thesis by simp
qed

subsection \<open>The renderer holds what the buffer records\<close>




lemma split_counts:
  "sum_list (map num_points cs) =
     sum_list (map num_points (takeWhile P cs)) + sum_list (map num_points (dropWhile P cs))"
proof -
  have "sum_list (map num_points (takeWhile P cs @ dropWhile P cs)) =
     sum_list (map num_points (takeWhile P cs)) + sum_list (map num_points (dropWhile P cs))"
    by (simp only: map_append sum_list_append)
  then show ?thesis by simp
qed








text \<open>With no call in between, the two sections are \<open>processMessage\<close>.\<close>

lemma processMessage_sections:
  "processMessage_interleaved env cl [] s = processMessage env cl s"
  by (simp add: processMessage_interleaved_def processMessage_def append_cloud_def
      split: sum.splits)





subsection \<open>The order of the intensity bounds\<close>

text \<open>
  Claim C1 at a cloud without points. The display shows intensities and computes the
  bounds itself; a cloud arrives that has no points and a (well-formed) intensity channel
  without values. The bounds were ordered before the call; after it \<open>min_intensity\<close> is
  999999 and \<open>max_intensity\<close> is -999999, the two start values of the search, so the
  invariant of the claim does not hold in the state \<open>addMessage\<close> leaves.
\<close>

theorem addMessage_empty_cloud_inverts_bounds:
  "outcome bounds_ordered (run fixed_tf [SetChannelColorIndex Intensity] fresh_display) = Inr True
   \<and> outcome min_intensity
        (run fixed_tf [SetChannelColorIndex Intensity, AddMessage empty_intensity_cloud] fresh_display)
      = Inr 999999
   \<and> outcome max_intensity
        (run fixed_tf [SetChannelColorIndex Intensity, AddMessage empty_intensity_cloud] fresh_display)
      = Inr (- 999999)
   \<and> outcome bounds_ordered
        (run fixed_tf [SetChannelColorIndex Intensity, AddMessage empty_intensity_cloud] fresh_display)
      = Inr False"
  by (simp add: fresh_display_eq outcome_def bounds_ordered_def ingest_defs setter_defs fixed_tf_def
      empty_intensity_cloud_def Let_def)

lemma transformCloud_ordered:
  assumes "transformCloud env info s = Inr (info', s')" "bounds_ordered s" "0 < num_points info'"
  shows "bounds_ordered s'"
proof -
  from assms(1) obtain cl1 s1 chans valid s2 un nx ny nz un' s3 ps0 where
    r: "reproject env (message info) s = (cl1, s1)" and
    cc: "check_channels (length (pts cl1)) (chan cl1) s1 False = (chans, valid, s2, un)" and
    ln: "look_for_normals (cl1\<lparr>chan := chans\<rparr>) un s2 = (nx, ny, nz, un', s3)" and
    info': "info' = info\<lparr>message := cl1\<lparr>chan := chans\<rparr>, num_points := length (pts cl1)\<rparr>" and
    s': "s' = show_points
           (color_points s3 (max_intensity s3 - min_intensity s3) (zip chans valid) ps0) s3"
    by (rule transformCloud_stages)
  have n: "0 < length (pts cl1)" using assms(3) info' by simp
  have "bounds_ordered s1"
    using assms(2) reproject_fields(8,9) [OF r] by (simp add: bounds_ordered_def)
  then have "bounds_ordered s2" using check_channels_ordered [OF cc _ n] by simp
  then have "bounds_ordered s3"
    using look_for_normals_fields(8,9) [OF ln] by (simp add: bounds_ordered_def)
  then show ?thesis
    unfolding s' by (simp add: bounds_ordered_def show_points_fields)
qed

lemma addMessage_ordered:
  assumes "addMessage env cl s = Inr s'" "bounds_ordered s" "0 < num_points (last (clouds s'))"
  shows "bounds_ordered s'"
proof -
  let ?info0 = "\<lparr>message = cl, time = 0, num_points = 0\<rparr>"
  from assms(1) obtain info s1 where
    t: "transformCloud env ?info0 s = Inr (info, s1)" and
    s': "s' = s1\<lparr>clouds := (if point_decay_time s1 = 0 then [] else clouds s1) @ [info],
                new_cloud := True\<rparr>"
    by (auto simp add: addMessage_def processMessage_def split: sum.splits)
  have "0 < num_points info" using assms(3) s' by simp
  from transformCloud_ordered [OF t assms(2) this] show ?thesis
    using s' by (simp add: bounds_ordered_def)
qed

lemma update_ordered:
  assumes "update dt s = Inr s'" "bounds_ordered s \<or> intensity_bounds_changed s"
  shows "bounds_ordered s'"
proof -
  have "bounds_ordered (rebroadcast_bounds s)"
    using assms(2) by (auto simp add: rebroadcast_bounds_def setter_defs bounds_ordered_def Let_def)
  moreover have "min_intensity s' = min_intensity (rebroadcast_bounds s)"
    "max_intensity s' = max_intensity (rebroadcast_bounds s)"
    using assms(1)
    by (auto simp add: update_def Let_def expire_keeps split: sum.splits if_splits dest: refresh_keeps)
  ultimately show ?thesis by (simp add: bounds_ordered_def)
qed

lemma call_ordered:
  assumes "call env c s = Inr s'" "bounds_ordered s"
    and "\<And>cl. c = AddMessage cl \<Longrightarrow> 0 < num_points (last (clouds s'))"
  shows "bounds_ordered s'"
proof (cases c)
  case (Update dt)
  with assms show ?thesis using update_ordered by simp
next
  case (AddMessage cl)
  with assms show ?thesis using addMessage_ordered by simp
next
  case (SetStyle st)
  with assms show ?thesis
    by (auto simp add: setter_defs bounds_ordered_def split: if_splits)
next
  case (SetChannelColorIndex idx)
  with assms show ?thesis
    by (auto simp add: setter_defs bounds_ordered_def split: if_splits)
qed (use assms in \<open>auto simp add: setter_defs bounds_ordered_def\<close>)


subsection \<open>Reads of the normal channels\<close>

lemma check_channel_flag:
  assumes "check_channel n c s un = (c', ok, s', un')" "channel_color_idx s \<noteq> NormalSphere"
  shows "un' = un"
  using assms by (auto simp add: check_channel_def Let_def split: if_splits prod.splits)

lemma check_channels_flag:
  assumes "check_channels n cs s un = (cs', valid, s', un')" "channel_color_idx s \<noteq> NormalSphere"
  shows "un' = un"
  using assms
proof (induction cs arbitrary: s un cs' valid s' un')
  case Nil
  then show ?case by simp
next
  case (Cons c cs)
  obtain c1 ok s1 un1 where one: "check_channel n c s un = (c1, ok, s1, un1)"
    by (cases "check_channel n c s un") auto
  obtain cs2 valid2 s2 un2 where rest: "check_channels n cs s1 un1 = (cs2, valid2, s2, un2)"
    by (cases "check_channels n cs s1 un1") auto
  from Cons.prems(1) one rest have "un' = un2" by simp
  moreover have "un1 = un" using check_channel_flag [OF one Cons.prems(2)] .
  moreover have "channel_color_idx s1 \<noteq> NormalSphere"
    using check_channel_fields(4) [OF one] Cons.prems(2) by simp
  ultimately show ?case using Cons.IH [OF rest] by simp
qed

lemma channel_index_from_found:
  assumes "channel_index_from d cs nm = k" "k \<noteq> -1"
  shows "int d \<le> k \<and> nat k - d < length cs \<and> name (cs ! (nat k - d)) = nm"
  using assms
proof (induction cs arbitrary: d)
  case Nil
  then show ?case by simp
next
  case (Cons c cs)
  show ?case
  proof (cases "name c = nm")
    case True
    with Cons.prems show ?thesis by simp
  next
    case False
    with Cons.prems have "channel_index_from (Suc d) cs nm = k" by simp
    from Cons.IH [OF this Cons.prems(2)]
    have ih: "int (Suc d) \<le> k" "nat k - Suc d < length cs" "name (cs ! (nat k - Suc d)) = nm"
      by simp_all
    from ih(1) have "nat k - d = Suc (nat k - Suc d)" by linarith
    with ih show ?thesis by simp
  qed
qed

lemma channel_value_defined:
  assumes "getROSCloudChannelIndex cl nm = k" "k \<noteq> -1"
    and "\<forall>c \<in> set (chan cl). name c = nm \<longrightarrow> i < length (vals c)"
  shows "\<exists>x. channel_value cl k i = Inr x"
proof -
  from channel_index_from_found [of 0 "chan cl" nm k] assms(1,2)
  have k: "nat k < length (chan cl)" "name (chan cl ! nat k) = nm"
    by (simp_all add: getROSCloudChannelIndex_def)
  then have "chan cl ! nat k \<in> set (chan cl)" by simp
  with assms(3) k(2) have "i < length (vals (chan cl ! nat k))" by blast
  with k(1) show ?thesis by (simp add: channel_value_def vec_at_def)
qed

lemma coordinates_defined:
  assumes "i < length (pts cl)"
    and "un \<longrightarrow> (\<forall>c \<in> set (chan cl). name c \<in> {''nx'', ''ny'', ''nz''} \<longrightarrow> i < length (vals c))"
  shows "\<exists>p. coordinates cl un (getROSCloudChannelIndex cl ''nx'')
            (getROSCloudChannelIndex cl ''ny'') (getROSCloudChannelIndex cl ''nz'') i = Inr p"
proof (cases "un \<and> getROSCloudChannelIndex cl ''nx'' \<noteq> -1 \<and> getROSCloudChannelIndex cl ''ny'' \<noteq> -1
    \<and> getROSCloudChannelIndex cl ''nz'' \<noteq> -1")
  case True
  with assms(2) have sized:
    "\<forall>c \<in> set (chan cl). name c = ''nx'' \<longrightarrow> i < length (vals c)"
    "\<forall>c \<in> set (chan cl). name c = ''ny'' \<longrightarrow> i < length (vals c)"
    "\<forall>c \<in> set (chan cl). name c = ''nz'' \<longrightarrow> i < length (vals c)"
    by simp_all
  from True channel_value_defined [OF refl _ sized(1)]
  obtain x where x: "channel_value cl (getROSCloudChannelIndex cl ''nx'') i = Inr x" by blast
  from True channel_value_defined [OF refl _ sized(2)]
  obtain y where y: "channel_value cl (getROSCloudChannelIndex cl ''ny'') i = Inr y" by blast
  from True channel_value_defined [OF refl _ sized(3)]
  obtain z where z: "channel_value cl (getROSCloudChannelIndex cl ''nz'') i = Inr z" by blast
  from True x y z show ?thesis by (simp add: coordinates_def)
next
  case False
  then have "coordinates cl un (getROSCloudChannelIndex cl ''nx'')
      (getROSCloudChannelIndex cl ''ny'') (getROSCloudChannelIndex cl ''nz'') i = Inr (pts cl ! i)"
    using assms(1) by (auto simp add: coordinates_def vec_at_def)
  then show ?thesis by blast
qed

lemma make_points_defined:
  assumes "\<forall>i \<in> set is. \<exists>p. coordinates cl un nx ny nz i = Inr p"
  shows "\<exists>ps. make_points env maxc cl un nx ny nz is = Inr ps"
  using assms
proof (induction "is")
  case Nil
  show ?case by simp
next
  case (Cons i rest)
  from Cons.prems obtain p where "coordinates cl un nx ny nz i = Inr p" by auto
  then obtain q where q: "make_point env maxc cl un nx ny nz i = Inr q"
    by (cases "robotToOgre env p") (simp add: make_point_def)
  from Cons obtain ps where "make_points env maxc cl un nx ny nz rest = Inr ps" by auto
  with q show ?case by simp
qed


lemma look_for_normals_result:
  "look_for_normals cl un s = (nx, ny, nz, un', s') \<Longrightarrow>
     nx = getROSCloudChannelIndex cl ''nx'' \<and> ny = getROSCloudChannelIndex cl ''ny''
     \<and> nz = getROSCloudChannelIndex cl ''nz'' \<and> (un' \<longrightarrow> un)"
  by (auto simp add: look_for_normals_def Let_def split: if_splits)

lemma checked_channels_sized:
  assumes "check_channels n cs s un = (cs', valid, s', un')"
    and "\<forall>c \<in> set cs. name c \<in> N \<longrightarrow> m \<le> length (vals c)"
  shows "\<forall>c \<in> set cs'. name c \<in> N \<longrightarrow> m \<le> length (vals c)"
proof
  fix c assume "c \<in> set cs'"
  then obtain j where j: "j < length cs'" "c = cs' ! j" by (auto simp add: in_set_conv_nth)
  note sh = check_channels_shape [OF assms(1)]
  have len: "length cs' = length cs" using sh by (metis length_map)
  have "name c = map name cs' ! j" using j by simp
  also have "\<dots> = name (cs ! j)" using sh j len by simp
  finally have nm: "name c = name (cs ! j)" .
  have "length (vals c) = map (\<lambda>c. length (vals c)) cs' ! j" using j by simp
  also have "\<dots> = length (vals (cs ! j))" using sh j len by simp
  finally have ln: "length (vals c) = length (vals (cs ! j))" .
  have "cs ! j \<in> set cs" using j len by simp
  with assms(2) nm ln show "name c \<in> N \<longrightarrow> m \<le> length (vals c)" by auto
qed

lemma transformCloud_returns:
  assumes r: "reproject env (message info) s = (cl1, s1)"
    and ok: "channel_color_idx s \<noteq> NormalSphere
      \<or> (\<forall>c \<in> set (chan cl1). name c \<in> {''nx'', ''ny'', ''nz''}
            \<longrightarrow> length (pts cl1) \<le> length (vals c))"
  shows "\<exists>info' s'. transformCloud env info s = Inr (info', s')"
proof -
  obtain chans valid s2 un where cc:
    "check_channels (length (pts cl1)) (chan cl1) s1 False = (chans, valid, s2, un)"
    by (cases "check_channels (length (pts cl1)) (chan cl1) s1 False") auto
  obtain nx ny nz un' s3 where ln:
    "look_for_normals (cl1\<lparr>chan := chans\<rparr>) un s2 = (nx, ny, nz, un', s3)"
    by (cases "look_for_normals (cl1\<lparr>chan := chans\<rparr>) un s2") auto
  let ?cl2 = "cl1\<lparr>chan := chans\<rparr>"
  note res = look_for_normals_result [OF ln]
  have reads: "un' \<longrightarrow> (\<forall>c \<in> set (chan ?cl2). name c \<in> {''nx'', ''ny'', ''nz''}
      \<longrightarrow> length (pts cl1) \<le> length (vals c))"
  proof (cases "channel_color_idx s \<noteq> NormalSphere")
    case True
    then have "channel_color_idx s1 \<noteq> NormalSphere" using reproject_fields(4) [OF r] by simp
    from check_channels_flag [OF cc this] have "\<not> un" by simp
    with res show ?thesis by simp
  next
    case False
    with ok have "\<forall>c \<in> set (chan cl1). name c \<in> {''nx'', ''ny'', ''nz''}
        \<longrightarrow> length (pts cl1) \<le> length (vals c)" by simp
    from checked_channels_sized [OF cc this] show ?thesis by simp
  qed
  have "\<forall>i \<in> set [0 ..< length (pts cl1)]. \<exists>p. coordinates ?cl2 un' nx ny nz i = Inr p"
  proof
    fix i assume "i \<in> set [0 ..< length (pts cl1)]"
    then have i: "i < length (pts ?cl2)" by simp
    have "un' \<longrightarrow> (\<forall>c \<in> set (chan ?cl2). name c \<in> {''nx'', ''ny'', ''nz''} \<longrightarrow> i < length (vals c))"
      using reads i by fastforce
    from coordinates_defined [OF i this] res
    show "\<exists>p. coordinates ?cl2 un' nx ny nz i = Inr p" by simp
  qed
  from make_points_defined [OF this] obtain ps0 where
    "make_points env (max_color s3) ?cl2 un' nx ny nz [0 ..< length (pts cl1)] = Inr ps0"
    by blast
  then show ?thesis
    by (simp add: transformCloud_def Let_def r cc ln)
qed

text \<open>A failed reprojection is logged and leaves the cloud as it came.\<close>

lemma reproject_failure:
  assumes "transformPointCloud env (fixed_frame s) cl = None"
  shows "fst (reproject env cl s) = cl"
    and "logged (snd (reproject env cl s)) =
      logged s @ [TransformError (if frame_id cl = [] then fixed_frame s else frame_id cl)
                    (fixed_frame s)]"
  using assms by (simp_all add: reproject_def)

text \<open>
  Whether the reprojection succeeds or throws, and whatever the sizes of the other
  channels, \<open>addMessage\<close> buffers the cloud as one new entry, provided the display does not
  show normals or every channel called \<open>nx\<close>, \<open>ny\<close> or \<open>nz\<close> has a value for each point.
\<close>

lemma addMessage_buffers_cloud:
  assumes "reproject env cl s = (cl1, s1)"
    and "channel_color_idx s \<noteq> NormalSphere
      \<or> (\<forall>c \<in> set (chan cl1). name c \<in> {''nx'', ''ny'', ''nz''}
            \<longrightarrow> length (pts cl1) \<le> length (vals c))"
  shows "\<exists>s' info. addMessage env cl s = Inr s'
      \<and> clouds s' = (if point_decay_time s = 0 then [] else clouds s) @ [info]
      \<and> num_points info = length (pts cl1) \<and> time info = 0"
proof -
  let ?info0 = "\<lparr>message = cl, time = 0, num_points = 0\<rparr>"
  from transformCloud_returns [of env ?info0 s cl1 s1] assms
  obtain info s2 where t: "transformCloud env ?info0 s = Inr (info, s2)" by auto
  then have a: "addMessage env cl s =
      Inr (s2\<lparr>clouds := (if point_decay_time s2 = 0 then [] else clouds s2) @ [info],
              new_cloud := True\<rparr>)"
    by (simp add: addMessage_def processMessage_def)
  from t obtain cl1' s1' chans where
    "reproject env (message ?info0) s = (cl1', s1')"
    "info = ?info0\<lparr>message := cl1'\<lparr>chan := chans\<rparr>, num_points := length (pts cl1')\<rparr>"
    by (rule transformCloud_stages)
  with assms(1) have n: "num_points info = length (pts cl1)" "time info = 0" by simp_all
  from transformCloud_result [OF t] have "clouds s2 = clouds s" "point_decay_time s2 = point_decay_time s"
    by auto
  with a n show ?thesis by simp
qed

text \<open>
  Claim C5 at a malformed channel. The display shows normals; the cloud has two points and
  its channel \<open>nx\<close> has no values, so it is malformed. The first loop logs that and marks
  the channel invalid, but the loop that fills the points reads \<open>nx.vals[0]\<close> all the same,
  from a vector that holds nothing: the call has no successor state, and the cloud is not
  appended to the (empty) buffer.
\<close>

theorem malformed_normal_channel_loses_cloud:
  "outcome (map num_points \<circ> clouds)
     (run fixed_tf [SetChannelColorIndex NormalSphere] fresh_display) = Inr []
   \<and> length (pts empty_nx_cloud) = 2
   \<and> getROSCloudChannelIndex empty_nx_cloud ''nx'' = 0
   \<and> channel_value empty_nx_cloud 0 0 = Inl OutOfRange
   \<and> outcome (map num_points \<circ> clouds)
     (run fixed_tf [SetChannelColorIndex NormalSphere, AddMessage empty_nx_cloud] fresh_display)
      = Inl OutOfRange"
  by (simp add: fresh_display_eq outcome_def ingest_defs setter_defs fixed_tf_def
      empty_nx_cloud_def fl_def upt_rec Let_def)

text \<open>
  Claim C10 at a channel that is too short. The cloud has one point and the channels \<open>nx\<close>,
  \<open>ny\<close>, \<open>nz\<close>, the last without values. With normals as coordinates the read of
  \<open>nz.vals[0]\<close> is past the end of the array, and \<open>transformCloud\<close> reaches that read when
  the display shows normals.
\<close>

theorem normal_sphere_reads_past_end:
  "length (pts empty_nz_cloud) = 1
   \<and> getROSCloudChannelIndex empty_nz_cloud ''nz'' = 2
   \<and> vec_at (chan empty_nz_cloud) 2 = Some \<lparr>name = ''nz'', vals = []\<rparr>
   \<and> channel_value empty_nz_cloud 2 0 = Inl OutOfRange
   \<and> coordinates empty_nz_cloud True 0 1 2 0 = Inl OutOfRange
   \<and> transformCloud fixed_tf \<lparr>message = empty_nz_cloud, time = 0, num_points = 0\<rparr>
        (fresh_display\<lparr>channel_color_idx := NormalSphere\<rparr>) = Inl OutOfRange"
  by (simp add: fresh_display_eq ingest_defs setter_defs fixed_tf_def empty_nz_cloud_def fl_def upt_rec Let_def)

subsection \<open>A decay time of 0\<close>

lemma call_keeps_single:
  assumes "call env c s = Inr s'" "keeps_zero_decay c" "point_decay_time s = 0" "length (clouds s) = 1"
  shows "point_decay_time s' = 0 \<and> length (clouds s') = 1"
proof (cases c)
  case (Update dt)
  with assms(1) have u: "update dt s = Inr s'" by simp
  from update_keeps [OF u] assms(3,4) show ?thesis
    by (simp add: expire_clouds rebroadcast_keeps age_clouds_def)
next
  case (AddMessage cl)
  with assms(1) have "addMessage env cl s = Inr s'" by simp
  from addMessage_result [OF this] assms(3) show ?thesis by auto
next
  case (SetStyle st)
  with assms show ?thesis by (auto simp add: setter_defs split: if_splits)
next
  case (SetChannelColorIndex idx)
  with assms show ?thesis by (auto simp add: setter_defs split: if_splits)
qed (use assms in \<open>auto simp add: setter_defs\<close>)

lemma run_keeps_single:
  assumes "run env cs s = Inr s'" "list_all keeps_zero_decay cs"
    "point_decay_time s = 0" "length (clouds s) = 1"
  shows "point_decay_time s' = 0 \<and> length (clouds s') = 1"
  using assms
proof (induction cs arbitrary: s)
  case Nil
  then show ?case by simp
next
  case (Cons c cs)
  from Cons.prems(1) obtain s1 where c: "call env c s = Inr s1" and r: "run env cs s1 = Inr s'"
    by (auto split: sum.splits)
  from Cons.prems(2) have k: "keeps_zero_decay c" "list_all keeps_zero_decay cs" by simp_all
  from call_keeps_single [OF c k(1) Cons.prems(3,4)] Cons.IH [OF r k(2)] show ?case by simp
qed

text \<open>
  Claim C4, as the code has it. Under a decay time of 0 every \<open>addMessage\<close> that returns
  leaves a buffer of exactly one entry, the cloud just received (reprojected) with age 0,
  and a renderer that holds exactly that entry's points. The buffer then keeps exactly one
  entry through every further sequence of calls that returns, as long as no call sets
  another decay time and none is \<open>reset\<close>, \<open>onDisable\<close> or \<open>fixedFrameChanged\<close>.
\<close>

theorem zero_decay_keeps_latest_cloud_only:
  "point_decay_time s = 0 \<longrightarrow>
     (\<forall>cl s1. addMessage env cl s = Inr s1 \<longrightarrow>
        (\<exists>info. clouds s1 = [info] \<and> time info = 0
           \<and> pts (message info) = pts (fst (reproject env cl s))
           \<and> map name (chan (message info)) = map name (chan (fst (reproject env cl s)))
           \<and> num_points info = length (pts (message info))
           \<and> length (points (cloud s1)) = num_points info)
        \<and> (\<forall>calls s2. list_all keeps_zero_decay calls \<and> run env calls s1 = Inr s2 \<longrightarrow>
              point_decay_time s2 = 0 \<and> length (clouds s2) = 1))"
proof (intro impI allI conjI)
  fix cl s1
  assume z: "point_decay_time s = 0" and a: "addMessage env cl s = Inr s1"
  from addMessage_result [OF a] z obtain info where
    i: "clouds s1 = [info]" "time info = 0" "length (points (cloud s1)) = num_points info"
    by auto
  from addMessage_entry [OF a] i(1) have
    "pts (message info) = pts (fst (reproject env cl s))"
    "map name (chan (message info)) = map name (chan (fst (reproject env cl s)))"
    "num_points info = length (pts (message info))"
    by simp_all
  with i
  show "\<exists>info. clouds s1 = [info] \<and> time info = 0
           \<and> pts (message info) = pts (fst (reproject env cl s))
           \<and> map name (chan (message info)) = map name (chan (fst (reproject env cl s)))
           \<and> num_points info = length (pts (message info))
           \<and> length (points (cloud s1)) = num_points info"
    by blast
next
  fix cl s1 calls s2
  assume z: "point_decay_time s = 0" and a: "addMessage env cl s = Inr s1"
    and r: "list_all keeps_zero_decay calls \<and> run env calls s1 = Inr s2"
  from addMessage_result [OF a] z have "point_decay_time s1 = 0" "length (clouds s1) = 1"
    by auto
  with r run_keeps_single [of env calls s1 s2]
  show "point_decay_time s2 = 0" "length (clouds s2) = 1" by simp_all
qed

theorem zero_decay_keeps_latest_cloud_only_witness:
  "point_decay_time fresh_display = 0
   \<and> outcome point_decay_time
       (run no_tf [AddMessage empty_intensity_cloud, Update 1, SetMinIntensity 3,
                   AddMessage ramp_cloud, Update 5] fresh_display) = Inr 0
   \<and> outcome (length \<circ> clouds)
       (run no_tf [AddMessage empty_intensity_cloud, Update 1, SetMinIntensity 3,
                   AddMessage ramp_cloud, Update 5] fresh_display) = Inr 1"
proof -
  let ?calls = "[Update 1, SetMinIntensity 3, AddMessage ramp_cloud, Update 5]"
  let ?res = "run no_tf (AddMessage empty_intensity_cloud # ?calls) fresh_display"
  have z: "point_decay_time fresh_display = 0" by (simp add: fresh_display_eq)
  have ev: "outcome point_decay_time ?res = Inr 0"
    by (simp add: fresh_display_eq outcome_def ingest_defs tick_defs setter_defs no_tf_def
        ramp_cloud_def empty_intensity_cloud_def fl_def upt_rec Let_def transformIntensity_def)
  then obtain s2 where res: "?res = Inr s2"
    by (cases ?res) (simp_all add: outcome_def)
  then obtain s1 where a: "addMessage no_tf empty_intensity_cloud fresh_display = Inr s1"
    and r: "run no_tf ?calls s1 = Inr s2"
    by (auto split: sum.splits)
  have k: "list_all keeps_zero_decay ?calls" by simp
  from zero_decay_keeps_latest_cloud_only [of fresh_display no_tf] z a k r
  have "point_decay_time s2 = 0 \<and> length (clouds s2) = 1" by blast
  with z res show ?thesis by (simp add: outcome_def)
qed

text \<open>
  Claim C4 as stated fails: two clouds received under a decay time of 1/2 are both still
  buffered after the decay time has been set to 0.
\<close>

theorem zero_decay_buffer_of_two:
  "outcome point_decay_time
     (run fixed_tf [SetDecayTime (1 / 2), AddMessage ramp_cloud, AddMessage ramp_cloud, SetDecayTime 0]
        fresh_display) = Inr 0
   \<and> outcome (length \<circ> clouds)
     (run fixed_tf [SetDecayTime (1 / 2), AddMessage ramp_cloud, AddMessage ramp_cloud, SetDecayTime 0]
        fresh_display) = Inr 2"
  by (simp add: fresh_display_eq outcome_def ingest_defs setter_defs fixed_tf_def ramp_cloud_def
      fl_def upt_rec Let_def)

subsection \<open>The options of the Channel property\<close>

lemma offered_option_role: "offered_option nm = Some (label, role) \<Longrightarrow> role \<noteq> -1"
  by (auto simp add: offered_option_def split: if_splits)






subsection \<open>The intensity colorizer\<close>

lemma transformIntensity_weight:
  "transformIntensity v p minc min_i max_i diff =
     (let t = intensity_weight (fval v) min_i diff
      in p\<lparr>pt_r := pt_r p * t + col_r minc * (1 - t),
            pt_g := pt_g p * t + col_g minc * (1 - t),
            pt_b := pt_b p * t + col_b minc * (1 - t)\<rparr>)"
  by (simp add: transformIntensity_def intensity_weight_def Let_def)

lemma transformIntensity_flat:
  "diff \<le> 0 \<Longrightarrow> transformIntensity v p minc min_i max_i diff = p"
  by (simp add: transformIntensity_def)

lemma selected_intensity_type:
  assumes "selected idx nm" "idx = Intensity \<or> idx = Curvature"
  shows "channel_type nm = Some CT_INTENSITY"
  using assms by (auto simp add: selected_def channel_type_def)

lemma map2_keep: "set (map2 (\<lambda>v p. p) vs ps) \<subseteq> set ps"
  by (auto simp add: set_zip)

lemma color_points_flat:
  assumes "channel_color_idx s = Intensity \<or> channel_color_idx s = Curvature" "d \<le> 0"
  shows "set (color_points s d cvs ps) \<subseteq> set ps"
  using assms
proof (induction cvs arbitrary: ps)
  case Nil
  then show ?case by simp
next
  case (Cons cv cvs)
  obtain c ok where cv: "cv = (c, ok)" by (cases cv)
  show ?case
  proof (cases "ok \<and> selected (channel_color_idx s) (name c)")
    case True
    then have ty: "channel_type (name c) = Some CT_INTENSITY"
      using selected_intensity_type Cons.prems(1) by blast
    have eq: "map2 (\<lambda>v p. funcs CT_INTENSITY v p (min_color s) (min_intensity s) (max_intensity s) d)
          (vals c) ps = map2 (\<lambda>v p. p) (vals c) ps"
      using Cons.prems(2) by (simp add: transformIntensity_flat)
    have "color_points s d (cv # cvs) ps =
        color_points s d cvs
          (map2 (\<lambda>v p. funcs CT_INTENSITY v p (min_color s) (min_intensity s) (max_intensity s) d)
             (vals c) ps)"
      using True ty cv by simp
    then have "color_points s d (cv # cvs) ps = color_points s d cvs (map2 (\<lambda>v p. p) (vals c) ps)"
      by (simp only: eq)
    moreover have "set (color_points s d cvs (map2 (\<lambda>v p. p) (vals c) ps))
        \<subseteq> set (map2 (\<lambda>v p. p) (vals c) ps)"
      using Cons.IH Cons.prems by blast
    ultimately show ?thesis using map2_keep [of "vals c" ps] by auto
  next
    case False
    then have "color_points s d (cv # cvs) ps = color_points s d cvs ps"
      using cv by (auto split: option.splits)
    then show ?thesis using Cons.IH Cons.prems by simp
  qed
qed

lemma addMessage_flat_bounds:
  assumes a: "addMessage env cl s = Inr s'"
    and role: "channel_color_idx s = Intensity \<or> channel_color_idx s = Curvature"
    and flat: "max_intensity s' \<le> min_intensity s'"
  shows "\<forall>p \<in> set (drop (if point_decay_time s = 0 then 0 else length (points (cloud s)))
                      (points (cloud s'))). color_of p = max_color s"
proof -
  let ?info0 = "\<lparr>message = cl, time = 0, num_points = 0\<rparr>"
  from a obtain info s1 where
    t: "transformCloud env ?info0 s = Inr (info, s1)" and
    s': "s' = s1\<lparr>clouds := (if point_decay_time s1 = 0 then [] else clouds s1) @ [info],
                new_cloud := True\<rparr>"
    by (auto simp add: addMessage_def processMessage_def split: sum.splits)
  from t obtain cl1 s0 chans valid s2 un nx ny nz un' s3 ps0 where
    r: "reproject env (message ?info0) s = (cl1, s0)" and
    cc: "check_channels (length (pts cl1)) (chan cl1) s0 False = (chans, valid, s2, un)" and
    ln: "look_for_normals (cl1\<lparr>chan := chans\<rparr>) un s2 = (nx, ny, nz, un', s3)" and
    mp: "make_points env (max_color s3) (cl1\<lparr>chan := chans\<rparr>) un' nx ny nz
           [0 ..< length (pts cl1)] = Inr ps0" and
    s1: "s1 = show_points
           (color_points s3 (max_intensity s3 - min_intensity s3) (zip chans valid) ps0) s3"
    by (rule transformCloud_stages)
  let ?ps = "color_points s3 (max_intensity s3 - min_intensity s3) (zip chans valid) ps0"
  note f1 = reproject_fields [OF r]
  note f2 = check_channels_fields [OF cc]
  note f3 = look_for_normals_fields [OF ln]
  have same: "channel_color_idx s3 = channel_color_idx s" "max_color s3 = max_color s"
    "point_decay_time s3 = point_decay_time s" "cloud s3 = cloud s"
    using f1 f2 f3 by simp_all
  have "max_intensity s' = max_intensity s3" "min_intensity s' = min_intensity s3"
    unfolding s' s1 by (simp_all add: show_points_fields)
  with flat have d: "max_intensity s3 - min_intensity s3 \<le> 0" by simp
  have "set ?ps \<subseteq> set ps0"
    using color_points_flat [of s3, OF _ d] role same(1) by simp
  moreover have "\<forall>p \<in> set ps0. color_of p = max_color s"
    using make_points_result [OF mp] same(2) by simp
  ultimately have all: "\<forall>p \<in> set ?ps. color_of p = max_color s" by blast
  have "points (cloud s') = (if point_decay_time s = 0 then [] else points (cloud s)) @ ?ps"
    unfolding s' s1 using same(3,4) by (simp add: show_points_fields)
  then have "drop (if point_decay_time s = 0 then 0 else length (points (cloud s))) (points (cloud s')) = ?ps"
    by simp
  with all show ?thesis by simp
qed


lemma foldl_min_const:
  "ys \<noteq> [] \<Longrightarrow> \<forall>z \<in> set ys. z = y \<Longrightarrow> foldl min a ys = min a (y :: real)"
proof (induction ys arbitrary: a)
  case Nil
  then show ?case by simp
next
  case (Cons z zs)
  then show ?case by (cases zs) auto
qed

lemma foldl_max_const:
  "ys \<noteq> [] \<Longrightarrow> \<forall>z \<in> set ys. z = y \<Longrightarrow> foldl max a ys = max a (y :: real)"
proof (induction ys arbitrary: a)
  case Nil
  then show ?case by simp
next
  case (Cons z zs)
  then show ?case by (cases zs) auto
qed

lemma compute_bounds_const:
  assumes "vs \<noteq> []" "\<forall>v \<in> set vs. fval v = x"
  shows "compute_bounds vs a b = (map cap vs, min a (min x 4096), max b (min x 4096))"
proof -
  let ?ys = "map (\<lambda>v. fval (cap v)) vs"
  have "?ys \<noteq> []" using assms(1) by simp
  moreover have "\<forall>z \<in> set ?ys. z = min x 4096" using assms(2) by (auto simp add: fval_cap)
  ultimately have "foldl min a ?ys = min a (min x 4096)" "foldl max b ?ys = max b (min x 4096)"
    using foldl_min_const foldl_max_const by blast+
  then show ?thesis by (simp add: compute_bounds_eq)
qed

lemma check_channel_const:
  assumes cc: "check_channel n c s un = (c', ok, s', un')"
    and auto: "auto_compute_intensity_bounds s" and role: "channel_color_idx s = Intensity"
    and n: "0 < n" and x: "- 999999 \<le> x"
    and const: "sized_intensity_channel n c \<longrightarrow> (\<forall>v \<in> set (vals c). fval v = x)"
  shows "(sized_intensity_channel n c \<longrightarrow>
            min_intensity s' = min x 4096 \<and> max_intensity s' = min x 4096)
       \<and> (\<not> sized_intensity_channel n c \<longrightarrow>
            min_intensity s' = min_intensity s \<and> max_intensity s' = max_intensity s)"
proof (cases "sized_intensity_channel n c")
  case True
  then have ne: "vals c \<noteq> []" using n by (auto simp add: sized_intensity_channel_def)
  from True const have "\<forall>v \<in> set (vals c). fval v = x" by simp
  from compute_bounds_const [OF ne this]
  have cb: "compute_bounds (vals c) 999999 (- 999999) =
      (map cap (vals c), min 999999 (min x 4096), max (- 999999) (min x 4096))" .
  have "min 999999 (min x 4096) = min x 4096" "max (- 999999) (min x 4096) = min x 4096"
    using x by simp_all
  with cb cc True auto role show ?thesis
    by (auto simp add: check_channel_def sized_intensity_channel_def Let_def)
next
  case False
  with cc role show ?thesis
    by (auto simp add: check_channel_def sized_intensity_channel_def Let_def split: if_splits)
qed

lemma check_channels_const:
  assumes "check_channels n cs s un = (cs', valid, s', un')"
    and "auto_compute_intensity_bounds s" and "channel_color_idx s = Intensity"
    and "0 < n" and "- 999999 \<le> x"
    and "\<forall>c \<in> set cs. sized_intensity_channel n c \<longrightarrow> (\<forall>v \<in> set (vals c). fval v = x)"
    and "(\<exists>c \<in> set cs. sized_intensity_channel n c)
         \<or> (min_intensity s = min x 4096 \<and> max_intensity s = min x 4096)"
  shows "min_intensity s' = min x 4096 \<and> max_intensity s' = min x 4096"
  using assms
proof (induction cs arbitrary: s un cs' valid s' un')
  case Nil
  then show ?case by simp
next
  case (Cons c cs)
  obtain c1 ok s1 un1 where one: "check_channel n c s un = (c1, ok, s1, un1)"
    by (cases "check_channel n c s un") auto
  obtain cs2 valid2 s2 un2 where rest: "check_channels n cs s1 un1 = (cs2, valid2, s2, un2)"
    by (cases "check_channels n cs s1 un1") auto
  from Cons.prems(1) one rest have s': "s' = s2" by simp
  note f = check_channel_fields [OF one]
  have c: "sized_intensity_channel n c \<longrightarrow> (\<forall>v \<in> set (vals c). fval v = x)"
    using Cons.prems(6) by simp
  note k = check_channel_const [OF one Cons.prems(2) Cons.prems(3) Cons.prems(4) Cons.prems(5) c]
  have "(\<exists>c \<in> set cs. sized_intensity_channel n c)
         \<or> (min_intensity s1 = min x 4096 \<and> max_intensity s1 = min x 4096)"
    using Cons.prems(7) k by auto
  moreover have "auto_compute_intensity_bounds s1" "channel_color_idx s1 = Intensity"
    using f Cons.prems(2,3) by simp_all
  moreover have "\<forall>c \<in> set cs. sized_intensity_channel n c \<longrightarrow> (\<forall>v \<in> set (vals c). fval v = x)"
    using Cons.prems(6) by simp
  ultimately show ?case
    using Cons.IH [OF rest _ _ Cons.prems(4) Cons.prems(5)] s' by blast
qed

lemma addMessage_constant_intensity:
  assumes a: "addMessage env cl s = Inr s'"
    and auto: "auto_compute_intensity_bounds s" and role: "channel_color_idx s = Intensity"
    and n: "pts (fst (reproject env cl s)) \<noteq> []" and x: "- 999999 \<le> x"
    and some: "\<exists>c \<in> set (chan (fst (reproject env cl s))).
        sized_intensity_channel (length (pts (fst (reproject env cl s)))) c"
    and const: "\<forall>c \<in> set (chan (fst (reproject env cl s))).
        sized_intensity_channel (length (pts (fst (reproject env cl s)))) c
          \<longrightarrow> (\<forall>v \<in> set (vals c). fval v = x)"
  shows "min_intensity s' = min x 4096 \<and> max_intensity s' = min x 4096"
proof -
  let ?info0 = "\<lparr>message = cl, time = 0, num_points = 0\<rparr>"
  from a obtain info s1 where
    t: "transformCloud env ?info0 s = Inr (info, s1)" and
    s': "s' = s1\<lparr>clouds := (if point_decay_time s1 = 0 then [] else clouds s1) @ [info],
                new_cloud := True\<rparr>"
    by (auto simp add: addMessage_def processMessage_def split: sum.splits)
  from t obtain cl1 s0 chans valid s2 un nx ny nz un' s3 ps0 where
    r: "reproject env (message ?info0) s = (cl1, s0)" and
    cc: "check_channels (length (pts cl1)) (chan cl1) s0 False = (chans, valid, s2, un)" and
    ln: "look_for_normals (cl1\<lparr>chan := chans\<rparr>) un s2 = (nx, ny, nz, un', s3)" and
    s1: "s1 = show_points
           (color_points s3 (max_intensity s3 - min_intensity s3) (zip chans valid) ps0) s3"
    by (rule transformCloud_stages)
  from r have cl1: "fst (reproject env cl s) = cl1" by simp
  note f1 = reproject_fields [OF r]
  have "min_intensity s2 = min x 4096 \<and> max_intensity s2 = min x 4096"
  proof (rule check_channels_const [OF cc])
    show "auto_compute_intensity_bounds s0" using f1 auto by simp
    show "channel_color_idx s0 = Intensity" using f1 role by simp
    show "0 < length (pts cl1)" using n cl1 by simp
    show "- 999999 \<le> x" by (rule x)
    show "\<forall>c \<in> set (chan cl1). sized_intensity_channel (length (pts cl1)) c
        \<longrightarrow> (\<forall>v \<in> set (vals c). fval v = x)"
      using const cl1 by simp
    show "(\<exists>c \<in> set (chan cl1). sized_intensity_channel (length (pts cl1)) c)
         \<or> (min_intensity s0 = min x 4096 \<and> max_intensity s0 = min x 4096)"
      using some cl1 by simp
  qed
  then show ?thesis
    unfolding s' s1 using look_for_normals_fields(8,9) [OF ln]
    by (simp add: show_points_fields)
qed


text \<open>
  Claim C6, as the code has it. The intensity colorizer weighs the colour the point has
  against the minimum colour with the weight \<open>t\<close> of the specification, and leaves the
  point as it is when the difference of the bounds is not positive. So when \<open>addMessage\<close>
  returns for a display that shows intensity or curvature, and the bounds it leaves
  satisfy \<open>max_intensity \<le> min_intensity\<close>, every point it handed to the renderer has the
  maximum colour. With the bounds computed from the cloud that is the case whenever the
  display shows intensity, the cloud has a point, it has an intensity channel with one
  value per point, and all such channels hold one value that is not below -999999.
\<close>

theorem intensity_colorizer_interpolates:
  "transformIntensity v p minc min_i max_i diff =
     (let t = intensity_weight (fval v) min_i diff
      in p\<lparr>pt_r := pt_r p * t + col_r minc * (1 - t),
            pt_g := pt_g p * t + col_g minc * (1 - t),
            pt_b := pt_b p * t + col_b minc * (1 - t)\<rparr>)
   \<and> (diff \<le> 0 \<longrightarrow> transformIntensity v p minc min_i max_i diff = p)
   \<and> (addMessage env cl s = Inr s'
        \<and> (channel_color_idx s = Intensity \<or> channel_color_idx s = Curvature)
        \<and> max_intensity s' \<le> min_intensity s'
      \<longrightarrow> (\<forall>q \<in> set (new_points s s'). color_of q = max_color s))
   \<and> (addMessage env cl s = Inr s'
        \<and> auto_compute_intensity_bounds s \<and> channel_color_idx s = Intensity
        \<and> pts (fst (reproject env cl s)) \<noteq> [] \<and> - 999999 \<le> x
        \<and> (\<exists>c \<in> set (chan (fst (reproject env cl s))).
              sized_intensity_channel (length (pts (fst (reproject env cl s)))) c)
        \<and> (\<forall>c \<in> set (chan (fst (reproject env cl s))).
              sized_intensity_channel (length (pts (fst (reproject env cl s)))) c
                \<longrightarrow> (\<forall>v \<in> set (vals c). fval v = x))
      \<longrightarrow> max_intensity s' = min_intensity s'
          \<and> (\<forall>q \<in> set (new_points s s'). color_of q = max_color s))"
proof (intro conjI impI)
  show "transformIntensity v p minc min_i max_i diff =
     (let t = intensity_weight (fval v) min_i diff
      in p\<lparr>pt_r := pt_r p * t + col_r minc * (1 - t),
            pt_g := pt_g p * t + col_g minc * (1 - t),
            pt_b := pt_b p * t + col_b minc * (1 - t)\<rparr>)"
    by (rule transformIntensity_weight)
next
  assume "diff \<le> 0"
  then show "transformIntensity v p minc min_i max_i diff = p"
    by (rule transformIntensity_flat)
next
  assume "addMessage env cl s = Inr s'
        \<and> (channel_color_idx s = Intensity \<or> channel_color_idx s = Curvature)
        \<and> max_intensity s' \<le> min_intensity s'"
  then show "\<forall>q \<in> set (new_points s s'). color_of q = max_color s"
    unfolding new_points_def using addMessage_flat_bounds by blast
next
  assume h: "addMessage env cl s = Inr s'
        \<and> auto_compute_intensity_bounds s \<and> channel_color_idx s = Intensity
        \<and> pts (fst (reproject env cl s)) \<noteq> [] \<and> - 999999 \<le> x
        \<and> (\<exists>c \<in> set (chan (fst (reproject env cl s))).
              sized_intensity_channel (length (pts (fst (reproject env cl s)))) c)
        \<and> (\<forall>c \<in> set (chan (fst (reproject env cl s))).
              sized_intensity_channel (length (pts (fst (reproject env cl s)))) c
                \<longrightarrow> (\<forall>v \<in> set (vals c). fval v = x))"
  then have b: "min_intensity s' = min x 4096 \<and> max_intensity s' = min x 4096"
    using addMessage_constant_intensity [of env cl s s' x] by blast
  then show "max_intensity s' = min_intensity s'" by simp
  from b have "max_intensity s' \<le> min_intensity s'" by simp
  with h show "\<forall>q \<in> set (new_points s s'). color_of q = max_color s"
    unfolding new_points_def using addMessage_flat_bounds [of env cl s s'] by blast
qed

theorem intensity_colorizer_interpolates_witness:
  "transformIntensity (fl 7) a_point black 7 7 0 = a_point
   \<and> outcome (length \<circ> points \<circ> cloud)
       (addMessage fixed_tf constant_cloud (fresh_display\<lparr>channel_color_idx := Intensity\<rparr>)) = Inr 2
   \<and> outcome (list_all (\<lambda>q. color_of q = white) \<circ> points \<circ> cloud)
       (addMessage fixed_tf constant_cloud (fresh_display\<lparr>channel_color_idx := Intensity\<rparr>)) = Inr True"
proof -
  let ?s = "fresh_display\<lparr>channel_color_idx := Intensity\<rparr>"
  let ?res = "addMessage fixed_tf constant_cloud ?s"
  have "(0 :: real) \<le> 0 \<longrightarrow> transformIntensity (fl 7) a_point black 7 7 0 = a_point"
    by (rule conjunct1 [OF conjunct2 [OF intensity_colorizer_interpolates]])
  then have flat: "transformIntensity (fl 7) a_point black 7 7 0 = a_point"
    by simp
  have ev: "outcome (length \<circ> points \<circ> cloud) ?res = Inr 2"
    by (simp add: fresh_display_eq outcome_def ingest_defs setter_defs fixed_tf_def
        constant_cloud_def fl_def upt_rec Let_def)
  then obtain s' where a: "?res = Inr s'"
    by (cases ?res) (simp_all add: outcome_def)
  have r: "fst (reproject fixed_tf constant_cloud ?s) = constant_cloud"
    by (simp add: reproject_def fixed_tf_def)
  have pre: "auto_compute_intensity_bounds ?s \<and> channel_color_idx ?s = Intensity
        \<and> pts (fst (reproject fixed_tf constant_cloud ?s)) \<noteq> [] \<and> - 999999 \<le> (0 :: real)
        \<and> (\<exists>c \<in> set (chan (fst (reproject fixed_tf constant_cloud ?s))).
              sized_intensity_channel (length (pts (fst (reproject fixed_tf constant_cloud ?s)))) c)
        \<and> (\<forall>c \<in> set (chan (fst (reproject fixed_tf constant_cloud ?s))).
              sized_intensity_channel (length (pts (fst (reproject fixed_tf constant_cloud ?s)))) c
                \<longrightarrow> (\<forall>v \<in> set (vals c). fval v = 0))"
    unfolding r
    by (simp add: fresh_display_eq constant_cloud_def sized_intensity_channel_def fl_def)
  from intensity_colorizer_interpolates [of _ _ _ _ _ _ fixed_tf constant_cloud ?s s' 0] a pre
  have "\<forall>q \<in> set (new_points ?s s'). color_of q = max_color ?s" by blast
  then have "list_all (\<lambda>q. color_of q = white) (points (cloud s'))"
    by (simp add: new_points_def fresh_display_eq white_def list_all_iff)
  with flat ev a show ?thesis by (simp add: outcome_def)
qed


text \<open>
  Claim C6 as stated fails: with the bounds set by hand to 0 and 4096, a cloud whose
  intensity channel is constantly 0 gets the minimum colour, not the maximum colour.
\<close>

theorem constant_channel_under_manual_bounds:
  "outcome (map color_of \<circ> points \<circ> cloud)
     (run fixed_tf [SetAutoComputeIntensityBounds False, SetChannelColorIndex Intensity,
                 AddMessage constant_cloud] fresh_display) = Inr [black, black]
   \<and> outcome max_color
     (run fixed_tf [SetAutoComputeIntensityBounds False, SetChannelColorIndex Intensity,
                 AddMessage constant_cloud] fresh_display) = Inr white"
  by (simp add: fresh_display_eq outcome_def ingest_defs setter_defs fixed_tf_def
        constant_cloud_def fl_def upt_rec Let_def transformIntensity_def color_of_def
        black_def white_def)

end
